theory Spec2Isabelle
  imports Main "HOL-Library.Word"
begin

unbundle bit_operations_syntax

section \<open>The fixed function pipeline state of nv2apretty\<close>

text \<open>
  A shallow embedding of \<^verbatim>\<open>src/nv2apretty/subprocessors/fixed_function_shader.py\<close>.
  Python integers are \<^typ>\<open>int\<close>, dictionaries are maps, the module globals are a record
  that is passed explicitly, and every \<^verbatim>\<open>raise\<close> is an \<open>Inl\<close> of a sum.
\<close>

subsection \<open>Values of the imported module\<close>

text \<open>
  Modelled from the spec: the module \<^verbatim>\<open>nv2apretty.extracted_data\<close> is not part of the
  sources at hand. Its classes \<^verbatim>\<open>StateArray\<close> and \<^verbatim>\<open>StructStateArray\<close> are known by the
  attributes the code reads (\<^verbatim>\<open>base\<close>, \<^verbatim>\<open>stride\<close>, \<^verbatim>\<open>num_elements\<close>, \<^verbatim>\<open>struct_stride\<close>,
  \<^verbatim>\<open>struct_count\<close>); the spec calls them Array and StructArray, and a plain \<^verbatim>\<open>int\<close> key
  Scalar. The keys of the registry are Python objects, so a key may have any other runtime
  type: \<open>OtherKey e\<close> is such a key, where \<open>e\<close> is the integer it compares (and hashes)
  equal to, if there is one (as \<^verbatim>\<open>660.0\<close> or an enum member would). Nothing else of such
  a key is ever inspected by the code.
\<close>

datatype op_info =
    IntOp int
  | StateArray (sa_base: int) (sa_stride: int) (sa_num_elements: int)
  | StructStateArray (ssa_base: int) (ssa_stride: int) (ssa_num_elements: int)
      (ssa_struct_stride: int) (ssa_struct_count: int)
  | OtherKey "int option"

text \<open>
  The names imported from \<^verbatim>\<open>nv2apretty.extracted_data\<close>: the eighteen opcode constants,
  the registry \<^verbatim>\<open>CLASS_TO_COMMAND_PROCESSOR_MAP\<close> (for each command class the keys of its
  dictionary, in iteration order) and the formatter table \<^verbatim>\<open>_PROCESSORS\<close>. Their values
  are parameters of the model.
\<close>

record extracted_data =
  NV097_SET_COLOR_MATERIAL :: int
  NV097_SET_FOG_ENABLE :: int
  NV097_SET_FOG_GEN_MODE :: int
  NV097_SET_LIGHT_CONTROL :: int
  NV097_SET_LIGHT_ENABLE_MASK :: int
  NV097_SET_LIGHTING_ENABLE :: int
  NV097_SET_POINT_PARAMS :: int
  NV097_SET_POINT_PARAMS_ENABLE :: int
  NV097_SET_POINT_SIZE :: int
  NV097_SET_POINT_SMOOTH_ENABLE :: int
  NV097_SET_SKIN_MODE :: int
  NV097_SET_SPECULAR_ENABLE :: int
  NV097_SET_TEXGEN_Q :: int
  NV097_SET_TEXGEN_R :: int
  NV097_SET_TEXGEN_S :: int
  NV097_SET_TEXGEN_T :: int
  NV097_SET_TEXTURE_MATRIX_ENABLE :: int
  NV097_SET_TWO_SIDE_LIGHT_EN :: int
  CLASS_TO_COMMAND_PROCESSOR_MAP :: "int \<rightharpoonup> op_info list"
  PROCESSORS :: "int \<times> int \<rightharpoonup> (int \<Rightarrow> int \<Rightarrow> int \<Rightarrow> string)"

datatype pyerror = ValueError | TypeError | IndexError | StructError

subsection \<open>The module globals and their population\<close>

definition BASE_TRACKED_NV097_OPS :: "extracted_data \<Rightarrow> int set" where
  "BASE_TRACKED_NV097_OPS D =
    {NV097_SET_COLOR_MATERIAL D, NV097_SET_FOG_ENABLE D, NV097_SET_FOG_GEN_MODE D,
     NV097_SET_LIGHT_CONTROL D, NV097_SET_LIGHT_ENABLE_MASK D, NV097_SET_LIGHTING_ENABLE D,
     NV097_SET_POINT_PARAMS D, NV097_SET_POINT_PARAMS_ENABLE D, NV097_SET_POINT_SIZE D,
     NV097_SET_POINT_SMOOTH_ENABLE D, NV097_SET_SKIN_MODE D, NV097_SET_SPECULAR_ENABLE D,
     NV097_SET_TWO_SIDE_LIGHT_EN D, NV097_SET_TEXTURE_MATRIX_ENABLE D, NV097_SET_TEXGEN_S D,
     NV097_SET_TEXGEN_T D, NV097_SET_TEXGEN_R D, NV097_SET_TEXGEN_Q D}"

record globals =
  TRACKED_NV097_OPS :: "int set"
  OP_TO_INFO_MAP :: "int \<rightharpoonup> op_info"

text \<open>The state of the module when it is first loaded: both globals are empty.\<close>

definition initial_globals :: globals where
  "initial_globals = \<lparr>TRACKED_NV097_OPS = {}, OP_TO_INFO_MAP = Map.empty\<rparr>"

text \<open>Python's \<^verbatim>\<open>range(n)\<close> for an integer \<open>n\<close>: empty when \<open>n \<le> 0\<close>.\<close>

definition range_py :: "int \<Rightarrow> int list" where
  "range_py n = map int [0..<nat n]"

text \<open>
  \<^verbatim>\<open>base_op = op_info\<close>, replaced by \<^verbatim>\<open>op_info.base\<close> for the two array classes. For a key
  of another type the result is the key itself; what matters of it is the integer it equals.
\<close>

fun base_op_of :: "op_info \<Rightarrow> int option" where
  "base_op_of (IntOp n) = Some n"
| "base_op_of (StateArray b s n) = Some b"
| "base_op_of (StructStateArray b s n ss sc) = Some b"
| "base_op_of (OtherKey e) = e"

text \<open>The loop of lines 82-83: \<^verbatim>\<open>for i in range(num_elements): add(base + i * stride)\<close>.\<close>

definition add_array_ops :: "int \<Rightarrow> int \<Rightarrow> int \<Rightarrow> int set \<Rightarrow> int set" where
  "add_array_ops b s n T = foldl (\<lambda>T i. insert (b + i * s) T) T (range_py n)"

text \<open>
  The loops of lines 87-91: the running \<^verbatim>\<open>base\<close> is advanced by \<^verbatim>\<open>struct_stride\<close> after
  each struct. The loop state is the tracked set and the running base.
\<close>

definition add_struct_ops :: "int \<Rightarrow> int \<Rightarrow> int \<Rightarrow> int \<Rightarrow> int \<Rightarrow> int set \<Rightarrow> int set" where
  "add_struct_ops b s n ss sc T =
     fst (foldl (\<lambda>(T, base) _. (add_array_ops base s n T, base + ss)) (T, b) (range_py sc))"

text \<open>One iteration of \<^verbatim>\<open>for op_info in kelvin_ops\<close> (lines 66-92).\<close>

definition populate_op :: "extracted_data \<Rightarrow> globals \<Rightarrow> op_info \<Rightarrow> globals" where
  "populate_op D g op_info =
     (case base_op_of op_info of
        None \<Rightarrow> g
      | Some base_op \<Rightarrow>
          if base_op \<notin> BASE_TRACKED_NV097_OPS D then g
          else
            let g1 = g\<lparr>OP_TO_INFO_MAP := (OP_TO_INFO_MAP g)(base_op \<mapsto> op_info)\<rparr> in
            (case op_info of
               IntOp n \<Rightarrow> g1\<lparr>TRACKED_NV097_OPS := insert n (TRACKED_NV097_OPS g1)\<rparr>
             | StateArray b s n \<Rightarrow>
                 g1\<lparr>TRACKED_NV097_OPS := add_array_ops b s n (TRACKED_NV097_OPS g1)\<rparr>
             | StructStateArray b s n ss sc \<Rightarrow>
                 g1\<lparr>TRACKED_NV097_OPS := add_struct_ops b s n ss sc (TRACKED_NV097_OPS g1)\<rparr>
             | OtherKey e \<Rightarrow> g1))"

text \<open>\<^verbatim>\<open>CLASS_TO_COMMAND_PROCESSOR_MAP.get(0x97, {})\<close>, iterated.\<close>

definition kelvin_ops :: "extracted_data \<Rightarrow> op_info list" where
  "kelvin_ops D = (case CLASS_TO_COMMAND_PROCESSOR_MAP D 0x97 of None \<Rightarrow> [] | Some ks \<Rightarrow> ks)"

text \<open>
  \<^verbatim>\<open>_populate_tracked_ops\<close>. The result is the outcome of the call: the function has no
  \<^verbatim>\<open>raise\<close> statement, so every path returns the globals.
\<close>

definition populate_tracked_ops :: "extracted_data \<Rightarrow> globals \<Rightarrow> pyerror + globals" where
  "populate_tracked_ops D g =
     (if TRACKED_NV097_OPS g \<noteq> {} then Inr g
      else Inr (foldl (populate_op D) g (kelvin_ops D)))"

subsection \<open>The frame state\<close>

type_synonym frame_state = "int \<rightharpoonup> int"

text \<open>\<^verbatim>\<open>FixedFunctionPipelineState.update\<close>; the dictionary \<^verbatim>\<open>_state\<close> is returned updated.\<close>

definition update :: "globals \<Rightarrow> frame_state \<Rightarrow> int \<Rightarrow> int \<Rightarrow> frame_state" where
  "update g st nv_op nv_param =
     (if nv_op \<notin> TRACKED_NV097_OPS g then st else st(nv_op \<mapsto> nv_param))"

text \<open>A sequence of \<^verbatim>\<open>update\<close> calls on one frame state.\<close>

definition updates :: "globals \<Rightarrow> frame_state \<Rightarrow> (int \<times> int) list \<Rightarrow> frame_state" where
  "updates g st ups = foldl (\<lambda>st (nv_op, nv_param). update g st nv_op nv_param) st ups"

text \<open>\<^verbatim>\<open>self._state.get(key, dflt)\<close>, where \<open>None\<close> is Python's \<^verbatim>\<open>None\<close>.\<close>

definition state_get :: "frame_state \<Rightarrow> int \<Rightarrow> int option \<Rightarrow> int option" where
  "state_get st k dflt = (case st k of Some v \<Rightarrow> Some v | None \<Rightarrow> dflt)"

text \<open>What \<^verbatim>\<open>get_raw_value\<close> returns when it is not \<^verbatim>\<open>None\<close>.\<close>

datatype raw_value = RawInt int | RawList "int list" | RawListList "int list list"

text \<open>
  The loop of lines 124-128 over the remaining indices, with the list built so far;
  \<open>None\<close> is the early \<^verbatim>\<open>return None\<close>.
\<close>

fun array_values :: "frame_state \<Rightarrow> int \<Rightarrow> int \<Rightarrow> int option \<Rightarrow> int list \<Rightarrow> int list
    \<Rightarrow> int list option" where
  "array_values st b s dflt [] raw_values = Some raw_values"
| "array_values st b s dflt (i # is) raw_values =
     (case state_get st (b + i * s) dflt of
        None \<Rightarrow> None
      | Some val \<Rightarrow> array_values st b s dflt is (raw_values @ [val]))"

text \<open>
  The loops of lines 135-143 over the remaining structs, with the running \<^verbatim>\<open>base\<close> and
  the list of lists built so far.
\<close>

fun struct_values :: "frame_state \<Rightarrow> int \<Rightarrow> int \<Rightarrow> int \<Rightarrow> int option \<Rightarrow> int list \<Rightarrow> int
    \<Rightarrow> int list list \<Rightarrow> int list list option" where
  "struct_values st s n ss dflt [] base raw_values = Some raw_values"
| "struct_values st s n ss dflt (j # js) base raw_values =
     (case array_values st base s dflt (range_py n) [] of
        None \<Rightarrow> None
      | Some element_values \<Rightarrow>
          struct_values st s n ss dflt js (base + ss) (raw_values @ [element_values]))"

text \<open>\<^verbatim>\<open>FixedFunctionPipelineState.get_raw_value\<close>.\<close>

definition get_raw_value :: "globals \<Rightarrow> frame_state \<Rightarrow> int \<Rightarrow> int option
    \<Rightarrow> pyerror + raw_value option" where
  "get_raw_value g st opcode dflt =
     (case OP_TO_INFO_MAP g opcode of
        None \<Rightarrow> Inr (map_option RawInt (state_get st opcode dflt))
      | Some (IntOp k) \<Rightarrow> Inr (map_option RawInt (state_get st opcode dflt))
      | Some (StateArray b s n) \<Rightarrow>
          Inr (map_option RawList (array_values st b s dflt (range_py n) []))
      | Some (StructStateArray b s n ss sc) \<Rightarrow>
          Inr (map_option RawListList (struct_values st s n ss dflt (range_py sc) b []))
      | Some (OtherKey e) \<Rightarrow> Inl ValueError)"

subsection \<open>Raising and sequencing\<close>

text \<open>
  The outcome of a Python expression is \<open>Inl\<close> of the exception raised or \<open>Inr\<close> of its
  value; \<open>ebind\<close> evaluates one expression after another and stops at the first exception.
\<close>

definition ebind :: "'e + 'a \<Rightarrow> ('a \<Rightarrow> 'e + 'b) \<Rightarrow> 'e + 'b" where
  "ebind m f = (case m of Inl e \<Rightarrow> Inl e | Inr v \<Rightarrow> f v)"

subsection \<open>The bit reinterpretation helper\<close>

text \<open>
  The value that \<^verbatim>\<open>as_float\<close> returns is a Python float, a double that holds a single
  precision value exactly. It is modelled by the three bit fields of that single precision
  value: they are what packing the float with \<^verbatim>\<open>"!f"\<close> writes.
\<close>

datatype float32 = Float32 (sign: bool) (exponent: "8 word") (fraction: "23 word")

text \<open>
  \<^verbatim>\<open>struct.pack("!I", int_val)\<close>: four bytes in network (big-endian) order, and
  \<^verbatim>\<open>struct.error\<close> for an integer outside the unsigned 32-bit range.
\<close>

definition pack_I :: "int \<Rightarrow> pyerror + 8 word list" where
  "pack_I int_val =
     (if 0 \<le> int_val \<and> int_val < 2 ^ 32
      then Inr [word_of_int (int_val div 2 ^ 24), word_of_int (int_val div 2 ^ 16),
                word_of_int (int_val div 2 ^ 8), word_of_int int_val]
      else Inl StructError)"

text \<open>The 32-bit pattern of four bytes read in network order.\<close>

definition be_word :: "8 word \<Rightarrow> 8 word \<Rightarrow> 8 word \<Rightarrow> 8 word \<Rightarrow> 32 word" where
  "be_word b3 b2 b1 b0 =
     push_bit 24 (ucast b3) OR push_bit 16 (ucast b2) OR push_bit 8 (ucast b1) OR ucast b0"

definition float_of_bits :: "32 word \<Rightarrow> float32" where
  "float_of_bits w = Float32 (bit w 31) (ucast (drop_bit 23 w)) (ucast w)"

text \<open>
  A NaN has all exponent bits set and a fraction that is not zero; it is signalling when the
  top bit of the fraction is clear, quiet otherwise.
\<close>

definition is_nan :: "float32 \<Rightarrow> bool" where
  "is_nan x = (exponent x = 255 \<and> fraction x \<noteq> 0)"

definition signalling :: "float32 \<Rightarrow> bool" where
  "signalling x = (is_nan x \<and> \<not> bit (fraction x) 22)"

text \<open>
  The conversion between C's \<^verbatim>\<open>float\<close> and \<^verbatim>\<open>double\<close> that \<^verbatim>\<open>struct\<close> performs when it unpacks
  or packs with \<^verbatim>\<open>"f"\<close> (Python's float is a double). It is exact on every number and on the
  infinities; a NaN keeps its sign and payload and comes out quiet, as the conversion
  instructions of the processor leave it (\<^verbatim>\<open>as_float(0x7F800001)\<close> packs back to
  \<^verbatim>\<open>0x7FC00001\<close>).
\<close>

definition quiet :: "float32 \<Rightarrow> float32" where
  "quiet x = (if is_nan x then Float32 (sign x) (exponent x) (fraction x OR 2 ^ 22) else x)"

text \<open>
  \<^verbatim>\<open>struct.unpack("!f", packed_bytes)[0]\<close>: the four bytes, read in network order, are the
  bit pattern of a C \<^verbatim>\<open>float\<close>, which is then converted to the double that Python keeps; any
  other number of bytes is a \<^verbatim>\<open>struct.error\<close>.
\<close>

definition unpack_f :: "8 word list \<Rightarrow> pyerror + float32" where
  "unpack_f packed_bytes =
     (case packed_bytes of
        [b3, b2, b1, b0] \<Rightarrow> Inr (quiet (float_of_bits (be_word b3 b2 b1 b0)))
      | _ \<Rightarrow> Inl StructError)"

definition as_float :: "int \<Rightarrow> pyerror + float32" where
  "as_float int_val = ebind (pack_I int_val) unpack_f"

text \<open>
  The encode operation that the specification pairs with \<^verbatim>\<open>as_float\<close>. It is not in the
  source; it is written from the specification's words (the matching encode operation), as
  \<^verbatim>\<open>struct.unpack("!I", struct.pack("!f", x))[0]\<close>, with the same byte order on both sides.
  Packing converts the double to a C \<^verbatim>\<open>float\<close> first.
\<close>

definition bits_of_float :: "float32 \<Rightarrow> 32 word" where
  "bits_of_float x =
     push_bit 31 (if sign x then 1 else 0) OR push_bit 23 (ucast (exponent x)) OR ucast (fraction x)"

definition pack_f :: "float32 \<Rightarrow> 8 word list" where
  "pack_f x = (let w = bits_of_float (quiet x) in
     [ucast (drop_bit 24 w), ucast (drop_bit 16 w), ucast (drop_bit 8 w), ucast w])"

definition unpack_I :: "8 word list \<Rightarrow> pyerror + int" where
  "unpack_I packed_bytes =
     (case packed_bytes of
        [b3, b2, b1, b0] \<Rightarrow> Inr (uint (be_word b3 b2 b1 b0))
      | _ \<Rightarrow> Inl StructError)"

definition encode_float :: "float32 \<Rightarrow> pyerror + int" where
  "encode_float x = unpack_I (pack_f x)"

subsection \<open>Formatting\<close>

text \<open>
  Python's own renderings of a float and of a string inside a list (\<^verbatim>\<open>str(float)\<close> and
  \<^verbatim>\<open>repr(str)\<close>) are not defined by this repository: they are parameters.
\<close>

record python =
  str_float :: "float32 \<Rightarrow> string"
  repr_str :: "string \<Rightarrow> string"

definition tab :: char where
  "tab = CHR 0x09"

definition newline :: char where
  "newline = CHR 0x0A"

definition str_bool :: "bool \<Rightarrow> string" where
  "str_bool b = (if b then ''True'' else ''False'')"

definition digit_char :: "nat \<Rightarrow> char" where
  "digit_char d = ''0123456789ABCDEF'' ! d"

fun str_nat :: "nat \<Rightarrow> string" where
  "str_nat n = (if n < 10 then [digit_char n] else str_nat (n div 10) @ [digit_char (n mod 10)])"

fun hex_nat :: "nat \<Rightarrow> string" where
  "hex_nat n = (if n < 16 then [digit_char n] else hex_nat (n div 16) @ [digit_char (n mod 16)])"

text \<open>The format \<^verbatim>\<open>{v:X}\<close> of an integer: upper case, no padding, a sign when negative.\<close>

definition format_X :: "int \<Rightarrow> string" where
  "format_X v = (if v < 0 then ''-'' @ hex_nat (nat (- v)) else hex_nat (nat v))"

text \<open>\<^verbatim>\<open>sep.join(xs)\<close>.\<close>

fun join :: "string \<Rightarrow> string list \<Rightarrow> string" where
  "join sep [] = []"
| "join sep [x] = x"
| "join sep (x # y # ys) = x @ sep @ join sep (y # ys)"

text \<open>\<^verbatim>\<open>str\<close> of a list of strings, and of a list of such lists.\<close>

definition str_list :: "python \<Rightarrow> string list \<Rightarrow> string" where
  "str_list P xs = ''['' @ join '', '' (map (repr_str P) xs) @ '']''"

definition str_list_list :: "python \<Rightarrow> string list list \<Rightarrow> string" where
  "str_list_list P xss = ''['' @ join '', '' (map (str_list P) xss) @ '']''"

subsection \<open>Decoding a value\<close>

text \<open>What \<^verbatim>\<open>_process\<close> returns: \<^verbatim>\<open>str | list[str] | list[list[str]]\<close>.\<close>

datatype processed = PStr string | PList "string list" | PListList "string list list"

text \<open>
  The expression \<^verbatim>\<open>processor(0, 0x97, param) if processor else f"0x{param:X}"\<close> after
  \<^verbatim>\<open>processor = _PROCESSORS.get((0x97, op))\<close>.
\<close>

definition process_value :: "extracted_data \<Rightarrow> int \<Rightarrow> int \<Rightarrow> string" where
  "process_value D op param =
     (case PROCESSORS D (0x97, op) of
        Some processor \<Rightarrow> processor 0 0x97 param
      | None \<Rightarrow> ''0x'' @ format_X param)"

text \<open>The loop of lines 171-174 (and 185-188) over \<^verbatim>\<open>enumerate(raw_value)\<close>.\<close>

definition process_array :: "extracted_data \<Rightarrow> int \<Rightarrow> int \<Rightarrow> int list \<Rightarrow> string list" where
  "process_array D b s raw_value =
     map (\<lambda>(i, param). process_value D (b + int i * s) param) (enumerate 0 raw_value)"

text \<open>The loop of lines 183-190 over the remaining structs, with the running \<^verbatim>\<open>base\<close>.\<close>

fun process_structs :: "extracted_data \<Rightarrow> int \<Rightarrow> int \<Rightarrow> int \<Rightarrow> int list list
    \<Rightarrow> string list list \<Rightarrow> string list list" where
  "process_structs D s ss base [] processed_struct_values = processed_struct_values"
| "process_structs D s ss base (struct_element # rest) processed_struct_values =
     process_structs D s ss (base + ss) rest
       (processed_struct_values @ [process_array D base s struct_element])"

text \<open>
  \<^verbatim>\<open>FixedFunctionPipelineState._process\<close>. \<^verbatim>\<open>get_raw_value\<close> gives an integer for a scalar,
  a list for a \<^verbatim>\<open>StateArray\<close> and a list of lists for a \<^verbatim>\<open>StructStateArray\<close>
  (\<open>get_raw_value_shape\<close> below), so the branches for a value of another shape are never
  taken; they hold the \<^verbatim>\<open>TypeError\<close> that iterating or formatting such a value raises.
\<close>

definition process :: "extracted_data \<Rightarrow> globals \<Rightarrow> frame_state \<Rightarrow> int \<Rightarrow> int option \<Rightarrow> string
    \<Rightarrow> pyerror + processed" where
  "process D g st opcode default_raw_value default_string_value =
     ebind (get_raw_value g st opcode default_raw_value) (\<lambda>raw_value.
       let scalar =
         (case raw_value of
            None \<Rightarrow> Inr (PStr default_string_value)
          | Some (RawInt v) \<Rightarrow> Inr (PStr (process_value D opcode v))
          | Some _ \<Rightarrow> Inl TypeError)
       in
       case OP_TO_INFO_MAP g opcode of
         None \<Rightarrow> scalar
       | Some (IntOp k) \<Rightarrow> scalar
       | Some (StateArray b s n) \<Rightarrow>
           (case raw_value of
              None \<Rightarrow> Inr (PList (replicate (nat n) default_string_value))
            | Some (RawList xs) \<Rightarrow> Inr (PList (process_array D b s xs))
            | Some _ \<Rightarrow> Inl TypeError)
       | Some (StructStateArray b s n ss sc) \<Rightarrow>
           (case raw_value of
              None \<Rightarrow> Inr (PList (replicate (nat n) default_string_value))
            | Some (RawListList xss) \<Rightarrow> Inr (PListList (process_structs D s ss b xss []))
            | Some _ \<Rightarrow> Inl TypeError)
       | Some (OtherKey e) \<Rightarrow> Inl ValueError)"

text \<open>The defaults of \<^verbatim>\<open>_process\<close>, as \<^verbatim>\<open>__str__\<close> calls it.\<close>

definition process0 :: "extracted_data \<Rightarrow> globals \<Rightarrow> frame_state \<Rightarrow> int \<Rightarrow> pyerror + processed" where
  "process0 D g st opcode = process D g st opcode None ''<UNKNOWN>''"

subsection \<open>The report\<close>

text \<open>Truth values of Python objects: \<^verbatim>\<open>bool(x)\<close>, and \<^verbatim>\<open>x != 0\<close>.\<close>

fun bool_raw :: "raw_value option \<Rightarrow> bool" where
  "bool_raw None = False"
| "bool_raw (Some (RawInt v)) = (v \<noteq> 0)"
| "bool_raw (Some (RawList xs)) = (xs \<noteq> [])"
| "bool_raw (Some (RawListList xss)) = (xss \<noteq> [])"

fun ne_zero :: "raw_value option \<Rightarrow> bool" where
  "ne_zero (Some (RawInt v)) = (v \<noteq> 0)"
| "ne_zero _ = True"

fun bool_processed :: "processed \<Rightarrow> bool" where
  "bool_processed (PStr s) = (s \<noteq> [])"
| "bool_processed (PList xs) = (xs \<noteq> [])"
| "bool_processed (PListList xss) = (xss \<noteq> [])"

fun len_processed :: "processed \<Rightarrow> nat" where
  "len_processed (PStr s) = length s"
| "len_processed (PList xs) = length xs"
| "len_processed (PListList xss) = length xss"

text \<open>A decoded value inside an f-string.\<close>

fun format_processed :: "python \<Rightarrow> processed \<Rightarrow> string" where
  "format_processed P (PStr s) = s"
| "format_processed P (PList xs) = str_list P xs"
| "format_processed P (PListList xss) = str_list_list P xss"

text \<open>
  \<^verbatim>\<open>vals[i]\<close> inside an f-string, for a non-negative index: a character of a string, an
  element of a list, or \<^verbatim>\<open>IndexError\<close>.
\<close>

fun processed_item :: "python \<Rightarrow> processed \<Rightarrow> nat \<Rightarrow> pyerror + string" where
  "processed_item P (PStr s) i = (if i < length s then Inr [s ! i] else Inl IndexError)"
| "processed_item P (PList xs) i = (if i < length xs then Inr (xs ! i) else Inl IndexError)"
| "processed_item P (PListList xss) i =
     (if i < length xss then Inr (str_list P (xss ! i)) else Inl IndexError)"

text \<open>
  \<^verbatim>\<open>as_float(params[i])\<close> for a truthy \<^verbatim>\<open>params\<close>: an integer has no items
  (\<^verbatim>\<open>TypeError\<close>), a list may be too short (\<^verbatim>\<open>IndexError\<close>), and an item that is itself a
  list cannot be packed (\<^verbatim>\<open>struct.error\<close>).
\<close>

fun as_float_item :: "raw_value option \<Rightarrow> nat \<Rightarrow> pyerror + float32" where
  "as_float_item (Some (RawList xs)) i =
     (if i < length xs then as_float (xs ! i) else Inl IndexError)"
| "as_float_item (Some (RawListList xss)) i =
     (if i < length xss then Inl StructError else Inl IndexError)"
| "as_float_item _ i = Inl TypeError"

text \<open>
  \<^verbatim>\<open>FixedFunctionPipelineState.__str__\<close>, block by block in the order of the source. Each
  block gives the lines it appends to \<^verbatim>\<open>ret\<close>, or the exception it raises.
\<close>

text \<open>Lines 199-205.\<close>

definition str_lighting :: "python \<Rightarrow> extracted_data \<Rightarrow> globals \<Rightarrow> frame_state
    \<Rightarrow> pyerror + string list" where
  "str_lighting P D g st =
     ebind (get_raw_value g st (NV097_SET_LIGHTING_ENABLE D) (Some 0)) (\<lambda>v.
       let lighting_enabled = ne_zero v;
           ret = [''  Lighting: '' @ str_bool lighting_enabled]
       in
       if lighting_enabled then
         ebind (get_raw_value g st (NV097_SET_TWO_SIDE_LIGHT_EN D) (Some 0)) (\<lambda>two_sided.
         ebind (process0 D g st (NV097_SET_COLOR_MATERIAL D)) (\<lambda>color_material.
         ebind (process0 D g st (NV097_SET_LIGHT_CONTROL D)) (\<lambda>light_control.
         ebind (process0 D g st (NV097_SET_LIGHT_ENABLE_MASK D)) (\<lambda>light_enable.
           Inr (ret @
             [tab # ''Two sided: '' @ str_bool (bool_raw two_sided),
              tab # ''Color material: '' @ format_processed P color_material,
              tab # ''Light control: '' @ format_processed P light_control,
              tab # ''Light enable: '' @ format_processed P light_enable])))))
       else Inr ret)"

text \<open>Line 207.\<close>

definition str_specular :: "extracted_data \<Rightarrow> globals \<Rightarrow> frame_state \<Rightarrow> pyerror + string list" where
  "str_specular D g st =
     ebind (get_raw_value g st (NV097_SET_SPECULAR_ENABLE D) (Some 0)) (\<lambda>v.
       Inr [''Specular enable: '' @ str_bool (bool_raw v)])"

text \<open>Lines 209-212.\<close>

definition str_fog :: "python \<Rightarrow> extracted_data \<Rightarrow> globals \<Rightarrow> frame_state
    \<Rightarrow> pyerror + string list" where
  "str_fog P D g st =
     ebind (get_raw_value g st (NV097_SET_FOG_ENABLE D) (Some 0)) (\<lambda>v.
       let fog_enabled = ne_zero v;
           ret = [''Fog enable: '' @ str_bool fog_enabled]
       in
       if fog_enabled then
         ebind (process0 D g st (NV097_SET_FOG_GEN_MODE D)) (\<lambda>fog_gen_mode.
           Inr (ret @ [tab # ''Fog gen mode: '' @ format_processed P fog_gen_mode]))
       else Inr ret)"

text \<open>Line 214.\<close>

definition str_skinning :: "python \<Rightarrow> extracted_data \<Rightarrow> globals \<Rightarrow> frame_state
    \<Rightarrow> pyerror + string list" where
  "str_skinning P D g st =
     ebind (process0 D g st (NV097_SET_SKIN_MODE D)) (\<lambda>skin_mode.
       Inr [''Skinning mode: '' @ format_processed P skin_mode])"

text \<open>Lines 216-235.\<close>

definition str_point_params :: "python \<Rightarrow> extracted_data \<Rightarrow> globals \<Rightarrow> frame_state
    \<Rightarrow> pyerror + string list" where
  "str_point_params P D g st =
     ebind (get_raw_value g st (NV097_SET_POINT_PARAMS_ENABLE D) (Some 0)) (\<lambda>v.
       let point_params_enabled = ne_zero v;
           ret = [''Point params enable: '' @ str_bool point_params_enabled]
       in
       if point_params_enabled then
         ebind (process0 D g st (NV097_SET_POINT_SIZE D)) (\<lambda>point_size.
         let ret = ret @ [tab # ''Point size: '' @ format_processed P point_size] in
         ebind (get_raw_value g st (NV097_SET_POINT_PARAMS D) None) (\<lambda>params.
           if bool_raw params then
             ebind (as_float_item params 0) (\<lambda>point_scale_factor_a.
             ebind (as_float_item params 1) (\<lambda>point_scale_factor_b.
             ebind (as_float_item params 2) (\<lambda>point_scale_factor_c.
             ebind (as_float_item params 3) (\<lambda>point_size_range.
             ebind (as_float_item params 6) (\<lambda>point_scale_bias.
             ebind (as_float_item params 7) (\<lambda>point_min_size.
               Inr (ret @
                 [tab # ''Size multiplier: sqrt(1/('' @ str_float P point_scale_factor_a @
                    '' + '' @ str_float P point_scale_factor_b @ '' * Deye + '' @
                    str_float P point_scale_factor_c @ '' * (Deye^2))'',
                  tab # ''Size range: '' @ str_float P point_size_range,
                  tab # ''Scale bias: '' @ str_float P point_scale_bias,
                  tab # ''Minimum size: '' @ str_float P point_min_size])))))))
           else Inr ret))
       else Inr ret)"

text \<open>Lines 237-238.\<close>

definition str_point_smooth :: "extracted_data \<Rightarrow> globals \<Rightarrow> frame_state
    \<Rightarrow> pyerror + string list" where
  "str_point_smooth D g st =
     ebind (get_raw_value g st (NV097_SET_POINT_SMOOTH_ENABLE D) (Some 0)) (\<lambda>v.
       if bool_raw v then Inr [''Point smooth (point sprites) enabled''] else Inr [])"

text \<open>The f-string of line 247 for one index \<open>i\<close> and the four items at that index.\<close>

definition texgen_text :: "nat \<Rightarrow> string \<Rightarrow> string \<Rightarrow> string \<Rightarrow> string \<Rightarrow> string" where
  "texgen_text i s t r q =
     tab # ''S['' @ str_nat i @ ''] '' @ s @ '', T['' @ str_nat i @ ''] '' @ t @
     '' R['' @ str_nat i @ '']: '' @ r @ '' Q['' @ str_nat i @ '']: '' @ q"

text \<open>The items are read in the order of the f-string; the first that is missing raises.\<close>

definition texgen_line :: "python \<Rightarrow> processed \<Rightarrow> processed \<Rightarrow> processed \<Rightarrow> processed \<Rightarrow> nat
    \<Rightarrow> pyerror + string" where
  "texgen_line P s_vals t_vals r_vals q_vals i =
     ebind (processed_item P s_vals i) (\<lambda>s.
     ebind (processed_item P t_vals i) (\<lambda>t.
     ebind (processed_item P r_vals i) (\<lambda>r.
     ebind (processed_item P q_vals i) (\<lambda>q.
       Inr (texgen_text i s t r q)))))"

text \<open>The generator of lines 246-249 over the remaining indices.\<close>

fun texgen_lines :: "python \<Rightarrow> processed \<Rightarrow> processed \<Rightarrow> processed \<Rightarrow> processed \<Rightarrow> nat list
    \<Rightarrow> pyerror + string list" where
  "texgen_lines P s_vals t_vals r_vals q_vals [] = Inr []"
| "texgen_lines P s_vals t_vals r_vals q_vals (i # is) =
     ebind (texgen_line P s_vals t_vals r_vals q_vals i) (\<lambda>l.
     ebind (texgen_lines P s_vals t_vals r_vals q_vals is) (\<lambda>ls. Inr (l # ls)))"

text \<open>
  Lines 245-249 for the four decoded values: the lines that follow the header.
  \<^verbatim>\<open>all([...])\<close> tests the truth value of each of the four.
\<close>

definition texgen_section :: "python \<Rightarrow> processed \<Rightarrow> processed \<Rightarrow> processed \<Rightarrow> processed
    \<Rightarrow> pyerror + string list" where
  "texgen_section P s_vals t_vals r_vals q_vals =
     (if bool_processed s_vals \<and> bool_processed t_vals \<and> bool_processed r_vals
         \<and> bool_processed q_vals
      then texgen_lines P s_vals t_vals r_vals q_vals [0..<len_processed s_vals]
      else Inr [])"

text \<open>Lines 240-249.\<close>

definition str_texgen :: "python \<Rightarrow> extracted_data \<Rightarrow> globals \<Rightarrow> frame_state
    \<Rightarrow> pyerror + string list" where
  "str_texgen P D g st =
     ebind (process0 D g st (NV097_SET_TEXGEN_S D)) (\<lambda>s_vals.
     ebind (process0 D g st (NV097_SET_TEXGEN_T D)) (\<lambda>t_vals.
     ebind (process0 D g st (NV097_SET_TEXGEN_R D)) (\<lambda>r_vals.
     ebind (process0 D g st (NV097_SET_TEXGEN_Q D)) (\<lambda>q_vals.
     ebind (texgen_section P s_vals t_vals r_vals q_vals) (\<lambda>ls.
       Inr (''TexGen: '' # ls))))))"

text \<open>
  Lines 251-254. Iterating an integer is a \<^verbatim>\<open>TypeError\<close>; the items of a list of lists
  are lists, true when not empty.
\<close>

definition matrix_item :: "nat \<Rightarrow> bool \<Rightarrow> string" where
  "matrix_item index b = ''['' @ str_nat index @ '': '' @ str_bool b @ '']''"

definition str_texture_matrix :: "extracted_data \<Rightarrow> globals \<Rightarrow> frame_state
    \<Rightarrow> pyerror + string list" where
  "str_texture_matrix D g st =
     ebind (get_raw_value g st (NV097_SET_TEXTURE_MATRIX_ENABLE D) None) (\<lambda>tex_matrix_en.
       if bool_raw tex_matrix_en then
         (case tex_matrix_en of
            Some (RawList xs) \<Rightarrow>
              Inr [''TextureMatrix: '' @ join '', ''
                (map (\<lambda>(index, item). matrix_item index (item \<noteq> 0)) (enumerate 0 xs))]
          | Some (RawListList xss) \<Rightarrow>
              Inr [''TextureMatrix: '' @ join '', ''
                (map (\<lambda>(index, item). matrix_item index (item \<noteq> [])) (enumerate 0 xss))]
          | _ \<Rightarrow> Inl TypeError)
       else Inr [])"

text \<open>The whole of \<^verbatim>\<open>__str__\<close>: the lines of the blocks, joined by \<^verbatim>\<open>"\n  "\<close>.\<close>

definition report :: "python \<Rightarrow> extracted_data \<Rightarrow> globals \<Rightarrow> frame_state \<Rightarrow> pyerror + string" where
  "report P D g st =
     ebind (str_lighting P D g st) (\<lambda>l1.
     ebind (str_specular D g st) (\<lambda>l2.
     ebind (str_fog P D g st) (\<lambda>l3.
     ebind (str_skinning P D g st) (\<lambda>l4.
     ebind (str_point_params P D g st) (\<lambda>l5.
     ebind (str_point_smooth D g st) (\<lambda>l6.
     ebind (str_texgen P D g st) (\<lambda>l7.
     ebind (str_texture_matrix D g st) (\<lambda>l8.
       Inr (join [newline, CHR '' '', CHR '' ''] (l1 @ l2 @ l3 @ l4 @ l5 @ l6 @ l7 @ l8))))))))))"

subsection \<open>Registries that fit the report\<close>

text \<open>
  The report reads some opcodes as switches or modes, the point parameters by index up to
  \<open>7\<close>, the texture matrix switches by iteration and the four texture generation modes side
  by side. A registry is well formed for the report when the descriptors that the expansion
  recorded have these shapes: no descriptor of an unknown kind for the opcodes of the
  report, an array of at least eight elements (or of none) for the point parameters, an
  array or a struct array for the texture matrix switches, and four arrays for the texture
  generation modes, of which the first is not longer than the others unless one of the
  others is empty.
\<close>

definition known_kind :: "globals \<Rightarrow> int \<Rightarrow> bool" where
  "known_kind g opcode = (case OP_TO_INFO_MAP g opcode of Some (OtherKey e) \<Rightarrow> False | _ \<Rightarrow> True)"

definition array_count :: "globals \<Rightarrow> int \<Rightarrow> int option" where
  "array_count g opcode =
     (case OP_TO_INFO_MAP g opcode of Some (StateArray b s n) \<Rightarrow> Some n | _ \<Rightarrow> None)"

definition well_formed_registry :: "extracted_data \<Rightarrow> globals \<Rightarrow> bool" where
  "well_formed_registry D g =
     (known_kind g (NV097_SET_LIGHTING_ENABLE D) \<and> known_kind g (NV097_SET_TWO_SIDE_LIGHT_EN D)
      \<and> known_kind g (NV097_SET_COLOR_MATERIAL D) \<and> known_kind g (NV097_SET_LIGHT_CONTROL D)
      \<and> known_kind g (NV097_SET_LIGHT_ENABLE_MASK D) \<and> known_kind g (NV097_SET_SPECULAR_ENABLE D)
      \<and> known_kind g (NV097_SET_FOG_ENABLE D) \<and> known_kind g (NV097_SET_FOG_GEN_MODE D)
      \<and> known_kind g (NV097_SET_SKIN_MODE D) \<and> known_kind g (NV097_SET_POINT_PARAMS_ENABLE D)
      \<and> known_kind g (NV097_SET_POINT_SIZE D) \<and> known_kind g (NV097_SET_POINT_SMOOTH_ENABLE D)
      \<and> (case array_count g (NV097_SET_POINT_PARAMS D) of
            Some n \<Rightarrow> n \<le> 0 \<or> 8 \<le> n
          | None \<Rightarrow> False)
      \<and> (case OP_TO_INFO_MAP g (NV097_SET_TEXTURE_MATRIX_ENABLE D) of
            Some (StateArray b s n) \<Rightarrow> True
          | Some (StructStateArray b s n ss sc) \<Rightarrow> True
          | _ \<Rightarrow> False)
      \<and> (case (array_count g (NV097_SET_TEXGEN_S D), array_count g (NV097_SET_TEXGEN_T D),
                array_count g (NV097_SET_TEXGEN_R D), array_count g (NV097_SET_TEXGEN_Q D)) of
            (Some n, Some nt, Some nr, Some nq) \<Rightarrow>
              (n \<le> nt \<and> n \<le> nr \<and> n \<le> nq) \<or> nt \<le> 0 \<or> nr \<le> 0 \<or> nq \<le> 0
          | _ \<Rightarrow> False))"

text \<open>The parameters of the updates are unsigned 32-bit values.\<close>

definition uint32 :: "int \<Rightarrow> bool" where
  "uint32 v = (0 \<le> v \<and> v < 2 ^ 32)"

definition uint32_state :: "frame_state \<Rightarrow> bool" where
  "uint32_state st = (\<forall>k v. st k = Some v \<longrightarrow> uint32 v)"

subsection \<open>Sample data\<close>

text \<open>
  A registry for the examples: the opcode values of the NV097 (Kelvin) class for the
  eighteen names, one opcode outside the interest set (\<open>0x100\<close>), scalars for the
  switches and modes, and arrays for the texture generation modes (four texture stages,
  sixteen bytes apart), the texture matrix switches and the eight point parameters.
  No formatter is registered.
\<close>

definition sample_ops :: "op_info list" where
  "sample_ops =
     [IntOp 0x100, IntOp 0x294, IntOp 0x298, IntOp 0x2A0, IntOp 0x2A4, IntOp 0x314,
      IntOp 0x318, IntOp 0x31C, IntOp 0x328, IntOp 0x3B8, IntOp 0x3BC,
      StateArray 0x3C0 16 4, StateArray 0x3C4 16 4, StateArray 0x3C8 16 4,
      StateArray 0x3CC 16 4, StateArray 0x420 4 4, IntOp 0x43C, StateArray 0xA30 4 8,
      IntOp 0x17C4]"

definition sample_data :: extracted_data where
  "sample_data =
     \<lparr>NV097_SET_COLOR_MATERIAL = 0x298, NV097_SET_FOG_ENABLE = 0x2A4,
      NV097_SET_FOG_GEN_MODE = 0x2A0, NV097_SET_LIGHT_CONTROL = 0x294,
      NV097_SET_LIGHT_ENABLE_MASK = 0x3BC, NV097_SET_LIGHTING_ENABLE = 0x314,
      NV097_SET_POINT_PARAMS = 0xA30, NV097_SET_POINT_PARAMS_ENABLE = 0x318,
      NV097_SET_POINT_SIZE = 0x43C, NV097_SET_POINT_SMOOTH_ENABLE = 0x31C,
      NV097_SET_SKIN_MODE = 0x328, NV097_SET_SPECULAR_ENABLE = 0x3B8,
      NV097_SET_TEXGEN_Q = 0x3CC, NV097_SET_TEXGEN_R = 0x3C8, NV097_SET_TEXGEN_S = 0x3C0,
      NV097_SET_TEXGEN_T = 0x3C4, NV097_SET_TEXTURE_MATRIX_ENABLE = 0x420,
      NV097_SET_TWO_SIDE_LIGHT_EN = 0x17C4,
      CLASS_TO_COMMAND_PROCESSOR_MAP = [0x97 \<mapsto> sample_ops],
      PROCESSORS = Map.empty\<rparr>"

text \<open>The globals after the module has been loaded with the sample registry.\<close>

definition sample_globals :: globals where
  "sample_globals = foldl (populate_op sample_data) initial_globals sample_ops"

text \<open>Python's renderings, fixed to something concrete for the examples.\<close>

definition sample_python :: python where
  "sample_python = \<lparr>str_float = (\<lambda>x. ''<float>''), repr_str = (\<lambda>s. ''<'' @ s @ ''>'')\<rparr>"

text \<open>
  The globals after one iteration of the population loop on a \<^verbatim>\<open>StructStateArray\<close> whose
  base is in the interest set: three structs, sixteen apart, of two elements each.
\<close>

definition struct_globals :: globals where
  "struct_globals = populate_op sample_data initial_globals (StructStateArray 0x3C0 4 2 16 3)"

text \<open>The globals after the module has been loaded (line 95) with the registry of \<open>D\<close>.\<close>

definition loaded_globals :: "extracted_data \<Rightarrow> globals" where
  "loaded_globals D = foldl (populate_op D) initial_globals (kelvin_ops D)"

text \<open>
  A registry with two keys whose type is none of the three known ones: one equals the
  opcode \<open>0x294\<close> (the light control mode) and one the opcode \<open>0x3B8\<close> (the specular switch),
  both in the interest set. A scalar comes before them and an array after them.
\<close>

definition unknown_kind_data :: extracted_data where
  "unknown_kind_data =
     sample_data\<lparr>CLASS_TO_COMMAND_PROCESSOR_MAP :=
       [0x97 \<mapsto> [IntOp 0x298, OtherKey (Some 0x294), OtherKey (Some 0x3B8),
                  StateArray 0x3C0 16 4]]\<rparr>"

text \<open>
  A registry in which a key of another type that equals \<open>0x294\<close> is followed by an array
  whose base is \<open>0x294\<close> too.
\<close>

definition overwritten_data :: extracted_data where
  "overwritten_data =
     sample_data\<lparr>CLASS_TO_COMMAND_PROCESSOR_MAP :=
       [0x97 \<mapsto> [OtherKey (Some 0x294), StateArray 0x294 4 2]]\<rparr>"

text \<open>
  The opcodes that \<^verbatim>\<open>__str__\<close> reads on every call, whatever the frame state holds; and
  those among them that it reads before it indexes or iterates any value (lines 199-216).
\<close>

definition always_read :: "extracted_data \<Rightarrow> int set" where
  "always_read D =
     {NV097_SET_LIGHTING_ENABLE D, NV097_SET_SPECULAR_ENABLE D, NV097_SET_FOG_ENABLE D,
      NV097_SET_SKIN_MODE D, NV097_SET_POINT_PARAMS_ENABLE D, NV097_SET_POINT_SMOOTH_ENABLE D,
      NV097_SET_TEXGEN_S D, NV097_SET_TEXGEN_T D, NV097_SET_TEXGEN_R D, NV097_SET_TEXGEN_Q D,
      NV097_SET_TEXTURE_MATRIX_ENABLE D}"

definition read_first :: "extracted_data \<Rightarrow> int set" where
  "read_first D =
     {NV097_SET_LIGHTING_ENABLE D, NV097_SET_SPECULAR_ENABLE D, NV097_SET_FOG_ENABLE D,
      NV097_SET_SKIN_MODE D, NV097_SET_POINT_PARAMS_ENABLE D}"

subsection \<open>Repeated population\<close>

text \<open>\<^verbatim>\<open>_populate_tracked_ops()\<close> called \<open>n\<close> times in a row.\<close>

fun populate_times :: "extracted_data \<Rightarrow> nat \<Rightarrow> globals \<Rightarrow> pyerror + globals" where
  "populate_times D 0 g = Inr g"
| "populate_times D (Suc n) g = ebind (populate_tracked_ops D g) (populate_times D n)"

text \<open>
  A sequence of updates for the sample registry: lighting and point parameters switched on,
  the eight point parameters (the patterns of \<open>1.0\<close>, \<open>0.0\<close>, \<open>0.0\<close>, \<open>10.0\<close>, \<open>0\<close>, \<open>0\<close>, \<open>1.0\<close>,
  \<open>2.0\<close>), one texture generation mode, the four texture matrix switches, and one update of
  an opcode that is not tracked.
\<close>

definition sample_updates :: "(int \<times> int) list" where
  "sample_updates =
     [(0x314, 1), (0x100, 7), (0x318, 1), (0xA30, 0x3F800000), (0xA34, 0), (0xA38, 0),
      (0xA3C, 0x41200000), (0xA40, 0), (0xA44, 0), (0xA48, 0x3F800000), (0xA4C, 0x40000000),
      (0x31C, 0xFFFFFFFF), (0x3C0, 5), (0x420, 1), (0x424, 0), (0x428, 0), (0x42C, 1)]"

text \<open>
  Three registries that hold descriptors of the three known kinds only, but not of the shapes
  that the report reads: the sample registry with two elements instead of four for the
  texture generation mode T, with three point parameters instead of eight, and with a
  scalar for the texture matrix switches.
\<close>

definition known_descriptor :: "op_info \<Rightarrow> bool" where
  "known_descriptor op_info = (case op_info of OtherKey e \<Rightarrow> False | _ \<Rightarrow> True)"

definition replace_op :: "op_info \<Rightarrow> op_info \<Rightarrow> op_info list \<Rightarrow> op_info list" where
  "replace_op old new ops = map (\<lambda>x. if x = old then new else x) ops"

definition short_texgen_data :: extracted_data where
  "short_texgen_data =
     sample_data\<lparr>CLASS_TO_COMMAND_PROCESSOR_MAP :=
       [0x97 \<mapsto> replace_op (StateArray 0x3C4 16 4) (StateArray 0x3C4 16 2) sample_ops]\<rparr>"

definition short_params_data :: extracted_data where
  "short_params_data =
     sample_data\<lparr>CLASS_TO_COMMAND_PROCESSOR_MAP :=
       [0x97 \<mapsto> replace_op (StateArray 0xA30 4 8) (StateArray 0xA30 4 3) sample_ops]\<rparr>"

definition scalar_matrix_data :: extracted_data where
  "scalar_matrix_data =
     sample_data\<lparr>CLASS_TO_COMMAND_PROCESSOR_MAP :=
       [0x97 \<mapsto> replace_op (StateArray 0x420 4 4) (IntOp 0x420) sample_ops]\<rparr>"

section \<open>Properties\<close>

subsection \<open>The loops of the reconstruction\<close>

lemma array_values_eq:
  "array_values st b s d is acc =
     (if \<exists>i\<in>set is. state_get st (b + i * s) d = None then None
      else Some (acc @ map (\<lambda>i. the (state_get st (b + i * s) d)) is))"
  by (induction "is" arbitrary: acc) (auto split: option.splits)

lemma array_values_range:
  "array_values st b s d (range_py n) [] =
     (if \<exists>i<nat n. state_get st (b + int i * s) d = None then None
      else Some (map (\<lambda>i. the (state_get st (b + int i * s) d)) [0..<nat n]))"
  unfolding array_values_eq by (auto simp: range_py_def comp_def)

lemma struct_values_eq:
  "struct_values st s n ss d js base acc =
     (if \<exists>k<length js. \<exists>i<nat n. state_get st (base + int k * ss + int i * s) d = None
      then None
      else Some (acc @ map (\<lambda>k. map (\<lambda>i. the (state_get st (base + int k * ss + int i * s) d))
                  [0..<nat n]) [0..<length js]))"
proof (induction js arbitrary: base acc)
  case Nil
  show ?case by simp
next
  case (Cons j js)
  let ?P = "\<lambda>base k. \<exists>i<nat n. state_get st (base + int k * ss + int i * s) d = None"
  have ex: "(\<exists>k<Suc (length js). ?P base k) \<longleftrightarrow> (?P base 0 \<or> (\<exists>k<length js. ?P (base + ss) k))"
    (is "?L \<longleftrightarrow> ?R")
  proof
    assume ?L
    then obtain k where k: "k < Suc (length js)" "?P base k" by blast
    show ?R
    proof (cases k)
      case 0 with k show ?thesis by simp
    next
      case (Suc k')
      with k have "k' < length js" "?P (base + ss) k'"
        by (simp_all add: algebra_simps)
      then show ?thesis by blast
    qed
  next
    assume ?R
    then show ?L
    proof
      assume "?P base 0" then show ?L by blast
    next
      assume "\<exists>k<length js. ?P (base + ss) k"
      then obtain k where "k < length js" "?P (base + ss) k" by blast
      then have "Suc k < Suc (length js)" "?P base (Suc k)" by (simp_all add: algebra_simps)
      then show ?L by blast
    qed
  qed
  have mp: "map (\<lambda>k. map (\<lambda>i. the (state_get st (base + int k * ss + int i * s) d)) [0..<nat n])
              [0..<Suc (length js)] =
            map (\<lambda>i. the (state_get st (base + int i * s) d)) [0..<nat n] #
            map (\<lambda>k. map (\<lambda>i. the (state_get st (base + ss + int k * ss + int i * s) d)) [0..<nat n])
              [0..<length js]"
  proof -
    have "[0..<Suc (length js)] = 0 # map Suc [0..<length js]"
      by (simp add: upt_conv_Cons map_Suc_upt del: upt_Suc)
    then show ?thesis
      by (simp add: comp_def algebra_simps del: upt_Suc)
  qed
  show ?case
    unfolding struct_values.simps array_values_range Cons.IH length_Cons ex mp
    by (auto split: option.splits)
qed

lemma struct_values_range:
  "struct_values st s n ss d (range_py sc) b [] =
     (if \<exists>j<nat sc. \<exists>i<nat n. state_get st (b + int j * ss + int i * s) d = None
      then None
      else Some (map (\<lambda>j. map (\<lambda>i. the (state_get st (b + int j * ss + int i * s) d))
                  [0..<nat n]) [0..<nat sc]))"
  unfolding struct_values_eq by (simp add: range_py_def)



subsection \<open>Reconstruction of arrays\<close>

text \<open>
  Claim C1. For a base opcode whose descriptor is a \<^verbatim>\<open>StateArray\<close> of \<open>n\<close> elements,
  \<^verbatim>\<open>get_raw_value\<close> is all or nothing: when any of the \<open>n\<close> elements resolves to \<^verbatim>\<open>None\<close>
  (nothing stored and the default is \<^verbatim>\<open>None\<close>) the call returns \<^verbatim>\<open>None\<close>; otherwise it
  returns exactly \<open>n\<close> values in ascending element order, element \<open>i\<close> read at opcode
  \<open>base + i * stride\<close>. With a default that is not \<^verbatim>\<open>None\<close> the result is never \<^verbatim>\<open>None\<close>:
  the missing elements are filled with the default.
\<close>

theorem get_raw_value_StateArray:
  assumes "OP_TO_INFO_MAP g opcode = Some (StateArray b s n)"
  shows "get_raw_value g st opcode dflt =
           Inr (if \<exists>i<nat n. state_get st (b + int i * s) dflt = None then None
                else Some (RawList (map (\<lambda>i. the (state_get st (b + int i * s) dflt)) [0..<nat n])))
         \<and> (\<forall>vs. get_raw_value g st opcode dflt = Inr (Some (RawList vs)) \<longrightarrow>
               length vs = nat n \<and> (\<forall>i<nat n. state_get st (b + int i * s) dflt = Some (vs ! i)))
         \<and> (\<forall>v. dflt = Some v \<longrightarrow>
               get_raw_value g st opcode dflt =
                 Inr (Some (RawList (map (\<lambda>i. case st (b + int i * s) of Some x \<Rightarrow> x | None \<Rightarrow> v)
                   [0..<nat n]))))"
proof -
  have eq: "get_raw_value g st opcode dflt =
           Inr (if \<exists>i<nat n. state_get st (b + int i * s) dflt = None then None
                else Some (RawList (map (\<lambda>i. the (state_get st (b + int i * s) dflt)) [0..<nat n])))"
    using assms by (simp add: get_raw_value_def array_values_range)
  have elems: "length vs = nat n \<and> (\<forall>i<nat n. state_get st (b + int i * s) dflt = Some (vs ! i))"
    if "get_raw_value g st opcode dflt = Inr (Some (RawList vs))" for vs
    using that unfolding eq by (auto split: if_splits)
  have dfl: "get_raw_value g st opcode dflt =
                 Inr (Some (RawList (map (\<lambda>i. case st (b + int i * s) of Some x \<Rightarrow> x | None \<Rightarrow> v)
                   [0..<nat n])))" if "dflt = Some v" for v
    unfolding eq using that by (auto simp: state_get_def split: option.splits)
  from eq elems dfl show ?thesis by blast
qed

text \<open>
  An instance on the sample registry: the four texture matrix switches, all written, one
  missing, and one missing with a default.
\<close>

theorem get_raw_value_StateArray_witness:
  "get_raw_value sample_globals
     (updates sample_globals Map.empty [(0x420, 1), (0x424, 0), (0x428, 7), (0x42C, 1)]) 0x420 None
     = Inr (Some (RawList [1, 0, 7, 1]))
   \<and> get_raw_value sample_globals
     (updates sample_globals Map.empty [(0x420, 1), (0x424, 0), (0x42C, 1)]) 0x420 None = Inr None
   \<and> get_raw_value sample_globals
     (updates sample_globals Map.empty [(0x420, 1), (0x424, 0), (0x42C, 1)]) 0x420 (Some 5)
     = Inr (Some (RawList [1, 0, 5, 1]))"
proof -
  have d: "OP_TO_INFO_MAP sample_globals 0x420 = Some (StateArray 0x420 4 4)"
    by code_simp
  note t = get_raw_value_StateArray [OF d]
  have upt4: "[0..<nat 4] = [0, 1, 2, 3]" by code_simp
  have 1: "get_raw_value sample_globals
     (updates sample_globals Map.empty [(0x420, 1), (0x424, 0), (0x428, 7), (0x42C, 1)]) 0x420 None
     = Inr (Some (RawList [1, 0, 7, 1]))"
    unfolding t [THEN conjunct1] by code_simp
  have 2: "get_raw_value sample_globals
     (updates sample_globals Map.empty [(0x420, 1), (0x424, 0), (0x42C, 1)]) 0x420 None = Inr None"
    unfolding t [THEN conjunct1] by code_simp
  have 3: "get_raw_value sample_globals
     (updates sample_globals Map.empty [(0x420, 1), (0x424, 0), (0x42C, 1)]) 0x420 (Some 5)
     = Inr (Some (RawList [1, 0, 5, 1]))"
    using t [THEN conjunct2, THEN conjunct2, rule_format, of "Some 5" 5] 
    apply simp
    by code_simp
  from 1 2 3 show ?thesis by blast
qed

subsection \<open>The opcodes that the expansion tracks\<close>

lemma add_array_ops_eq:
  "add_array_ops b s n T = T \<union> {b + int i * s |i. i < nat n}"
proof -
  have "foldl (\<lambda>T i. insert (b + i * s) T) T is = T \<union> (\<lambda>i. b + i * s) ` set is" for "is"
    by (induction "is" arbitrary: T) auto
  then show ?thesis
    by (auto simp: add_array_ops_def range_py_def)
qed

lemma add_struct_ops_foldl:
  "foldl (\<lambda>(T, base) _. (add_array_ops base s n T, base + ss)) (T, b) js =
     (T \<union> {b + int j * ss + int i * s |j i. j < length js \<and> i < nat n}, b + int (length js) * ss)"
proof (induction js arbitrary: T b)
  case Nil
  show ?case by simp
next
  case (Cons x js)
  have "{b + int i * s |i. i < nat n} \<union>
        {b + ss + int j * ss + int i * s |j i. j < length js \<and> i < nat n} =
        {b + int j * ss + int i * s |j i. j < Suc (length js) \<and> i < nat n}" (is "?A \<union> ?B = ?C")
  proof (intro set_eqI iffI)
    fix x assume "x \<in> ?A \<union> ?B"
    then show "x \<in> ?C"
    proof
      assume "x \<in> ?A"
      then obtain i where "x = b + int 0 * ss + int i * s" "i < nat n" by auto
      then show ?thesis by blast
    next
      assume "x \<in> ?B"
      then obtain j i where "x = b + int (Suc j) * ss + int i * s" "j < length js" "i < nat n"
        by (auto simp: algebra_simps)
      then have "x = b + int (Suc j) * ss + int i * s \<and> Suc j < Suc (length js) \<and> i < nat n"
        by simp
      then show ?thesis by blast
    qed
  next
    fix x assume "x \<in> ?C"
    then obtain j i where x: "x = b + int j * ss + int i * s" "j < Suc (length js)" "i < nat n"
      by blast
    show "x \<in> ?A \<union> ?B"
    proof (cases j)
      case 0
      with x show ?thesis by auto
    next
      case (Suc j')
      with x have "x = b + ss + int j' * ss + int i * s \<and> j' < length js \<and> i < nat n"
        by (simp add: algebra_simps)
      then show ?thesis by blast
    qed
  qed
  then have seteq: "add_array_ops b s n T \<union>
        {b + ss + int j * ss + int i * s |j i. j < length js \<and> i < nat n} =
        T \<union> {b + int j * ss + int i * s |j i. j < Suc (length js) \<and> i < nat n}"
    unfolding add_array_ops_eq Un_assoc by simp
  have "foldl (\<lambda>(T, base) _. (add_array_ops base s n T, base + ss)) (T, b) (x # js) =
        foldl (\<lambda>(T, base) _. (add_array_ops base s n T, base + ss))
          (add_array_ops b s n T, b + ss) js"
    by simp
  also have "\<dots> = (add_array_ops b s n T \<union>
        {b + ss + int j * ss + int i * s |j i. j < length js \<and> i < nat n},
        b + ss + int (length js) * ss)"
    by (rule Cons.IH)
  also have "\<dots> = (T \<union> {b + int j * ss + int i * s |j i. j < length (x # js) \<and> i < nat n},
        b + int (length (x # js)) * ss)"
    unfolding seteq by (simp add: algebra_simps)
  finally show ?case .
qed

lemma add_struct_ops_eq:
  "add_struct_ops b s n ss sc T =
     T \<union> {b + int j * ss + int i * s |j i. j < nat sc \<and> i < nat n}"
  by (simp add: add_struct_ops_def add_struct_ops_foldl range_py_def)

subsection \<open>Reconstruction of struct arrays\<close>

text \<open>
  Claim C2. For a base opcode whose descriptor is a \<^verbatim>\<open>StructStateArray\<close>, \<^verbatim>\<open>get_raw_value\<close>
  returns, when no element is missing, a list of lists that keeps the order of the structs
  (ascending \<open>j\<close> below \<^verbatim>\<open>struct_count\<close>) and, inside each struct, of the elements (ascending
  \<open>i\<close> below \<^verbatim>\<open>num_elements\<close>); the value of struct \<open>j\<close>, element \<open>i\<close> is read at opcode
  \<open>base + j * struct_stride + i * stride\<close>. One missing element anywhere makes the whole
  result \<^verbatim>\<open>None\<close>. The opcodes read are the ones that the expansion tracks for the
  descriptor.
\<close>

theorem get_raw_value_StructStateArray:
  assumes "OP_TO_INFO_MAP g opcode = Some (StructStateArray b s n ss sc)"
  shows "get_raw_value g st opcode dflt =
           Inr (if \<exists>j<nat sc. \<exists>i<nat n. state_get st (b + int j * ss + int i * s) dflt = None
                then None
                else Some (RawListList
                  (map (\<lambda>j. map (\<lambda>i. the (state_get st (b + int j * ss + int i * s) dflt))
                     [0..<nat n]) [0..<nat sc])))
         \<and> (\<forall>vss. get_raw_value g st opcode dflt = Inr (Some (RawListList vss)) \<longrightarrow>
               length vss = nat sc \<and>
               (\<forall>j<nat sc. length (vss ! j) = nat n \<and>
                  (\<forall>i<nat n. state_get st (b + int j * ss + int i * s) dflt = Some (vss ! j ! i))))
         \<and> (b \<in> BASE_TRACKED_NV097_OPS D \<longrightarrow>
               TRACKED_NV097_OPS (populate_op D g' (StructStateArray b s n ss sc)) =
                 TRACKED_NV097_OPS g' \<union> {b + int j * ss + int i * s |j i. j < nat sc \<and> i < nat n})"
proof -
  have eq: "get_raw_value g st opcode dflt =
           Inr (if \<exists>j<nat sc. \<exists>i<nat n. state_get st (b + int j * ss + int i * s) dflt = None
                then None
                else Some (RawListList
                  (map (\<lambda>j. map (\<lambda>i. the (state_get st (b + int j * ss + int i * s) dflt))
                     [0..<nat n]) [0..<nat sc])))"
    using assms by (simp add: get_raw_value_def struct_values_range)
  have elems: "length vss = nat sc \<and>
               (\<forall>j<nat sc. length (vss ! j) = nat n \<and>
                  (\<forall>i<nat n. state_get st (b + int j * ss + int i * s) dflt = Some (vss ! j ! i)))"
    if "get_raw_value g st opcode dflt = Inr (Some (RawListList vss))" for vss
    using that unfolding eq by (auto split: if_splits)
  have tr: "TRACKED_NV097_OPS (populate_op D g' (StructStateArray b s n ss sc)) =
                 TRACKED_NV097_OPS g' \<union> {b + int j * ss + int i * s |j i. j < nat sc \<and> i < nat n}"
    if "b \<in> BASE_TRACKED_NV097_OPS D"
    using that by (simp add: populate_op_def add_struct_ops_eq)
  from eq elems tr show ?thesis by blast
qed

text \<open>
  An instance: three structs of two elements, all six written, and one of them missing.
\<close>

theorem get_raw_value_StructStateArray_witness:
  "get_raw_value struct_globals
     (updates struct_globals Map.empty
        [(0x3C0, 10), (0x3C4, 11), (0x3D0, 20), (0x3D4, 21), (0x3E0, 30), (0x3E4, 31)]) 0x3C0 None
     = Inr (Some (RawListList [[10, 11], [20, 21], [30, 31]]))
   \<and> get_raw_value struct_globals
     (updates struct_globals Map.empty
        [(0x3C0, 10), (0x3C4, 11), (0x3D0, 20), (0x3E0, 30), (0x3E4, 31)]) 0x3C0 None = Inr None
   \<and> 0x3D4 \<in> TRACKED_NV097_OPS struct_globals \<and> 0x3D8 \<notin> TRACKED_NV097_OPS struct_globals"
proof -
  have d: "OP_TO_INFO_MAP struct_globals 0x3C0 = Some (StructStateArray 0x3C0 4 2 16 3)"
    by code_simp
  note t = get_raw_value_StructStateArray [OF d]
  have 1: "get_raw_value struct_globals
     (updates struct_globals Map.empty
        [(0x3C0, 10), (0x3C4, 11), (0x3D0, 20), (0x3D4, 21), (0x3E0, 30), (0x3E4, 31)]) 0x3C0 None
     = Inr (Some (RawListList [[10, 11], [20, 21], [30, 31]]))"
    unfolding t [THEN conjunct1] by code_simp
  have 2: "get_raw_value struct_globals
     (updates struct_globals Map.empty
        [(0x3C0, 10), (0x3C4, 11), (0x3D0, 20), (0x3E0, 30), (0x3E4, 31)]) 0x3C0 None = Inr None"
    unfolding t [THEN conjunct1] by code_simp
  have b: "0x3C0 \<in> BASE_TRACKED_NV097_OPS sample_data"
    by (simp add: BASE_TRACKED_NV097_OPS_def sample_data_def)
  have tr: "TRACKED_NV097_OPS struct_globals =
              {0x3C0 + int j * 16 + int i * 4 |j i. j < nat 3 \<and> i < nat 2}"
    using t [THEN conjunct2, THEN conjunct2, rule_format, OF b, of initial_globals]
    by (simp add: struct_globals_def initial_globals_def)
  have "(0x3D4 :: int) = 0x3C0 + int 1 * 16 + int 1 * 4 \<and> 1 < nat 3 \<and> 1 < nat 2"
    by simp
  then have 3: "0x3D4 \<in> TRACKED_NV097_OPS struct_globals"
    unfolding tr by blast
  have j: "j < nat 3 \<longleftrightarrow> j = 0 \<or> j = 1 \<or> j = 2" for j by auto
  have i: "i < nat 2 \<longleftrightarrow> i = 0 \<or> i = 1" for i by auto
  have 4: "0x3D8 \<notin> TRACKED_NV097_OPS struct_globals"
    unfolding tr i j by auto
  from 1 2 3 4 show ?thesis by blast
qed

subsection \<open>The population loop\<close>

lemma TRACKED_populate_op:
  "TRACKED_NV097_OPS (populate_op D g x) =
     TRACKED_NV097_OPS g \<union> TRACKED_NV097_OPS (populate_op D initial_globals x)"
  by (cases x) (auto simp: populate_op_def add_array_ops_eq add_struct_ops_eq Let_def
      initial_globals_def split: option.splits)

lemma TRACKED_foldl_populate_op:
  "TRACKED_NV097_OPS (foldl (populate_op D) g xs) =
     TRACKED_NV097_OPS g \<union> TRACKED_NV097_OPS (foldl (populate_op D) initial_globals xs)"
proof (induction xs rule: rev_induct)
  case Nil
  show ?case by (simp add: initial_globals_def)
next
  case (snoc x xs)
  show ?case
    using TRACKED_populate_op [of D "foldl (populate_op D) g xs" x]
      TRACKED_populate_op [of D "foldl (populate_op D) initial_globals xs" x] snoc.IH
    by auto
qed

lemma populate_op_map:
  "OP_TO_INFO_MAP (populate_op D g x) k =
     (if base_op_of x = Some k \<and> k \<in> BASE_TRACKED_NV097_OPS D then Some x
      else OP_TO_INFO_MAP g k)"
  by (cases x) (auto simp: populate_op_def Let_def split: option.splits)

lemma foldl_populate_map:
  "OP_TO_INFO_MAP (foldl (populate_op D) g xs) k =
     (case find (\<lambda>x. base_op_of x = Some k \<and> k \<in> BASE_TRACKED_NV097_OPS D) (rev xs) of
        None \<Rightarrow> OP_TO_INFO_MAP g k
      | Some x \<Rightarrow> Some x)"
  by (induction xs rule: rev_induct) (simp_all add: populate_op_map)

lemma foldl_populate_map_absorb:
  "OP_TO_INFO_MAP (foldl (populate_op D) (foldl (populate_op D) g xs) xs) =
   OP_TO_INFO_MAP (foldl (populate_op D) g xs)"
proof
  fix k
  show "OP_TO_INFO_MAP (foldl (populate_op D) (foldl (populate_op D) g xs) xs) k =
        OP_TO_INFO_MAP (foldl (populate_op D) g xs) k"
    by (simp add: foldl_populate_map [of D _ xs k] split: option.splits)
qed

lemma foldl_populate_fixed:
  assumes "TRACKED_NV097_OPS (foldl (populate_op D) g xs) = {}"
  shows "foldl (populate_op D) (foldl (populate_op D) g xs) xs = foldl (populate_op D) g xs"
proof -
  let ?g1 = "foldl (populate_op D) g xs"
  have "TRACKED_NV097_OPS (foldl (populate_op D) initial_globals xs) = {}"
    using assms TRACKED_foldl_populate_op [of D g xs] by auto
  then have "TRACKED_NV097_OPS (foldl (populate_op D) ?g1 xs) = TRACKED_NV097_OPS ?g1"
    using TRACKED_foldl_populate_op [of D ?g1 xs] by auto
  then show ?thesis
    by (intro globals.equality) (simp_all add: foldl_populate_map_absorb)
qed

lemma populate_tracked_ops_twice:
  "\<exists>g1. populate_tracked_ops D g = Inr g1 \<and> populate_tracked_ops D g1 = Inr g1"
proof (cases "TRACKED_NV097_OPS g = {}")
  case False
  then show ?thesis by (simp add: populate_tracked_ops_def)
next
  case True
  let ?g1 = "foldl (populate_op D) g (kelvin_ops D)"
  have 1: "populate_tracked_ops D g = Inr ?g1"
    using True by (simp add: populate_tracked_ops_def)
  have 2: "populate_tracked_ops D ?g1 = Inr ?g1"
    using foldl_populate_fixed [of D g "kelvin_ops D"]
    by (simp add: populate_tracked_ops_def)
  from 1 2 show ?thesis by blast
qed

text \<open>
  Claim C9. \<^verbatim>\<open>_populate_tracked_ops\<close> is idempotent: when the tracked set is not empty it
  returns at once and changes neither global; and whatever the globals were before the first
  call, a second call leaves them as the first call produced them, so any number of calls
  gives what one call gives.
\<close>

theorem populate_tracked_ops_idempotent:
  "(TRACKED_NV097_OPS g \<noteq> {} \<longrightarrow> populate_tracked_ops D g = Inr g)
   \<and> (\<exists>g1. populate_tracked_ops D g = Inr g1 \<and> populate_tracked_ops D g1 = Inr g1)
   \<and> populate_times D (Suc n) g = populate_tracked_ops D g"
proof -
  have a: "TRACKED_NV097_OPS g \<noteq> {} \<longrightarrow> populate_tracked_ops D g = Inr g"
    by (simp add: populate_tracked_ops_def)
  obtain g1 where g1: "populate_tracked_ops D g = Inr g1" "populate_tracked_ops D g1 = Inr g1"
    using populate_tracked_ops_twice by blast
  have stay: "populate_times D m g1 = Inr g1" for m
    by (induction m) (simp_all add: g1 ebind_def)
  have c: "populate_times D (Suc n) g = populate_tracked_ops D g"
    by (simp add: g1 ebind_def stay)
  from a g1 c show ?thesis by blast
qed

text \<open>
  An instance: the sample registry, loaded into the empty globals once, again, and three
  times in a row.
\<close>

theorem populate_tracked_ops_idempotent_witness:
  "TRACKED_NV097_OPS sample_globals \<noteq> {}
   \<and> populate_tracked_ops sample_data initial_globals = Inr sample_globals
   \<and> populate_tracked_ops sample_data sample_globals = Inr sample_globals
   \<and> populate_times sample_data 3 initial_globals = Inr sample_globals"
proof -
  have ne: "TRACKED_NV097_OPS sample_globals \<noteq> {}"
  proof -
    have "0x294 \<in> TRACKED_NV097_OPS sample_globals" by code_simp
    then show ?thesis by blast
  qed
  have first: "populate_tracked_ops sample_data initial_globals = Inr sample_globals"
    by (simp add: populate_tracked_ops_def initial_globals_def sample_globals_def kelvin_ops_def
        sample_data_def)
  have "populate_times sample_data (Suc 2) initial_globals =
        populate_tracked_ops sample_data initial_globals"
    using populate_tracked_ops_idempotent [of initial_globals sample_data 2] by blast
  then have times: "populate_times sample_data 3 initial_globals = Inr sample_globals"
    by (simp add: first numeral_3_eq_3)
  from populate_tracked_ops_idempotent [of sample_globals sample_data 0] ne
  have "populate_tracked_ops sample_data sample_globals = Inr sample_globals" by blast
  with ne first times show ?thesis by blast
qed

subsection \<open>Descriptors of an unknown kind\<close>

lemma get_raw_value_shape:
  assumes "get_raw_value g st opcode dflt = Inr (Some v)"
  shows "case OP_TO_INFO_MAP g opcode of
           None \<Rightarrow> \<exists>n. v = RawInt n
         | Some (IntOp k) \<Rightarrow> \<exists>n. v = RawInt n
         | Some (StateArray b s n) \<Rightarrow> \<exists>xs. v = RawList xs
         | Some (StructStateArray b s n ss sc) \<Rightarrow> \<exists>xss. v = RawListList xss
         | Some (OtherKey e) \<Rightarrow> False"
  using assms by (auto simp: get_raw_value_def split: option.splits op_info.splits)

lemma get_raw_value_known:
  assumes "\<forall>e. OP_TO_INFO_MAP g opcode \<noteq> Some (OtherKey e)"
  shows "\<exists>v. get_raw_value g st opcode dflt = Inr v"
  using assms by (auto simp: get_raw_value_def split: option.splits op_info.splits)

lemma process_known:
  assumes "\<forall>e. OP_TO_INFO_MAP g opcode \<noteq> Some (OtherKey e)"
  shows "\<exists>v. process D g st opcode dflt ds = Inr v"
  using assms
  by (auto simp: process_def get_raw_value_def ebind_def Let_def
      split: option.splits op_info.splits)

lemma get_raw_value_unknown:
  "OP_TO_INFO_MAP g opcode = Some (OtherKey e) \<Longrightarrow> get_raw_value g st opcode dflt = Inl ValueError"
  by (simp add: get_raw_value_def)

lemma find_append_case:
  "find P (xs @ ys) = (case find P xs of None \<Rightarrow> find P ys | Some x \<Rightarrow> Some x)"
  by (induction xs) simp_all

lemma loaded_globals_populate:
  "populate_tracked_ops D initial_globals = Inr (loaded_globals D)"
  by (simp add: populate_tracked_ops_def loaded_globals_def initial_globals_def)

lemma get_raw_value_error:
  "get_raw_value g st opcode dflt = Inl err \<Longrightarrow> err = ValueError"
  by (auto simp: get_raw_value_def split: option.splits op_info.splits)

lemma process_error:
  "process D g st opcode dflt ds = Inl err \<Longrightarrow> err = ValueError"
  by (auto simp: process_def get_raw_value_def ebind_def Let_def
      split: option.splits op_info.splits)

lemma process0_error: "process0 D g st opcode = Inl err \<Longrightarrow> err = ValueError"
  unfolding process0_def by (rule process_error)

lemma process0_unknown:
  "OP_TO_INFO_MAP g opcode = Some (OtherKey e) \<Longrightarrow> process0 D g st opcode = Inl ValueError"
  by (simp add: process0_def process_def get_raw_value_unknown ebind_def)

lemma process0_cases:
  "process0 D g st opcode = Inl ValueError \<or> (\<exists>v. process0 D g st opcode = Inr v)"
  by (cases "process0 D g st opcode") (auto dest: process0_error)

lemma str_lighting_cases:
  "str_lighting P D g st = Inl ValueError \<or> (\<exists>ls. str_lighting P D g st = Inr ls)"
proof (cases "str_lighting P D g st")
  case (Inl err)
  then have "err = ValueError"
    by (auto simp: str_lighting_def ebind_def Let_def split: sum.splits if_splits
        dest: get_raw_value_error process0_error)
  with Inl show ?thesis by simp
qed simp

lemma str_specular_cases:
  "str_specular D g st = Inl ValueError \<or> (\<exists>ls. str_specular D g st = Inr ls)"
proof (cases "str_specular D g st")
  case (Inl err)
  then have "err = ValueError"
    by (auto simp: str_specular_def ebind_def split: sum.splits dest: get_raw_value_error)
  with Inl show ?thesis by simp
qed simp

lemma str_fog_cases:
  "str_fog P D g st = Inl ValueError \<or> (\<exists>ls. str_fog P D g st = Inr ls)"
proof (cases "str_fog P D g st")
  case (Inl err)
  then have "err = ValueError"
    by (auto simp: str_fog_def ebind_def Let_def split: sum.splits if_splits
        dest: get_raw_value_error process0_error)
  with Inl show ?thesis by simp
qed simp

lemma str_skinning_cases:
  "str_skinning P D g st = Inl ValueError \<or> (\<exists>ls. str_skinning P D g st = Inr ls)"
proof (cases "str_skinning P D g st")
  case (Inl err)
  then have "err = ValueError"
    by (auto simp: str_skinning_def ebind_def split: sum.splits dest: process0_error)
  with Inl show ?thesis by simp
qed simp

lemma str_texgen_unknown:
  assumes "opcode \<in> {NV097_SET_TEXGEN_S D, NV097_SET_TEXGEN_T D, NV097_SET_TEXGEN_R D,
      NV097_SET_TEXGEN_Q D}"
    and "OP_TO_INFO_MAP g opcode = Some (OtherKey e)"
  shows "str_texgen P D g st = Inl ValueError"
  using assms process0_unknown [OF assms(2), of D st]
    process0_cases [of D g st "NV097_SET_TEXGEN_S D"]
    process0_cases [of D g st "NV097_SET_TEXGEN_T D"]
    process0_cases [of D g st "NV097_SET_TEXGEN_R D"]
  by (auto simp: str_texgen_def ebind_def)

lemma report_Inr_sections:
  assumes "report P D g st = Inr text"
  shows "(\<exists>l. str_lighting P D g st = Inr l) \<and> (\<exists>l. str_specular D g st = Inr l)
    \<and> (\<exists>l. str_fog P D g st = Inr l) \<and> (\<exists>l. str_skinning P D g st = Inr l)
    \<and> (\<exists>l. str_point_params P D g st = Inr l) \<and> (\<exists>l. str_point_smooth D g st = Inr l)
    \<and> (\<exists>l. str_texgen P D g st = Inr l) \<and> (\<exists>l. str_texture_matrix D g st = Inr l)"
  using assms by (auto simp: report_def ebind_def split: sum.splits)

lemma section_unknown:
  assumes u: "OP_TO_INFO_MAP g opcode = Some (OtherKey e)"
  shows "opcode = NV097_SET_LIGHTING_ENABLE D \<Longrightarrow> str_lighting P D g st = Inl ValueError"
    and "opcode = NV097_SET_SPECULAR_ENABLE D \<Longrightarrow> str_specular D g st = Inl ValueError"
    and "opcode = NV097_SET_FOG_ENABLE D \<Longrightarrow> str_fog P D g st = Inl ValueError"
    and "opcode = NV097_SET_SKIN_MODE D \<Longrightarrow> str_skinning P D g st = Inl ValueError"
    and "opcode = NV097_SET_POINT_PARAMS_ENABLE D \<Longrightarrow> str_point_params P D g st = Inl ValueError"
    and "opcode = NV097_SET_POINT_SMOOTH_ENABLE D \<Longrightarrow> str_point_smooth D g st = Inl ValueError"
    and "opcode = NV097_SET_TEXTURE_MATRIX_ENABLE D \<Longrightarrow> str_texture_matrix D g st = Inl ValueError"
  using u
  by (auto simp: str_lighting_def str_specular_def str_fog_def str_skinning_def
      str_point_params_def str_point_smooth_def str_texture_matrix_def
      get_raw_value_unknown process0_unknown ebind_def)

lemma report_unknown_always:
  assumes u: "OP_TO_INFO_MAP g opcode = Some (OtherKey e)" and r: "opcode \<in> always_read D"
  shows "\<exists>err. report P D g st = Inl err"
proof (cases "report P D g st")
  case (Inl err)
  then show ?thesis by blast
next
  case (Inr rendered)
  note s = report_Inr_sections [OF Inr]
  from r consider "opcode = NV097_SET_LIGHTING_ENABLE D" | "opcode = NV097_SET_SPECULAR_ENABLE D"
    | "opcode = NV097_SET_FOG_ENABLE D" | "opcode = NV097_SET_SKIN_MODE D"
    | "opcode = NV097_SET_POINT_PARAMS_ENABLE D" | "opcode = NV097_SET_POINT_SMOOTH_ENABLE D"
    | "opcode = NV097_SET_TEXTURE_MATRIX_ENABLE D"
    | "opcode \<in> {NV097_SET_TEXGEN_S D, NV097_SET_TEXGEN_T D, NV097_SET_TEXGEN_R D,
        NV097_SET_TEXGEN_Q D}"
    by (auto simp: always_read_def)
  then have False
  proof cases
    case 8
    from str_texgen_unknown [OF 8 u, of P st] s show False by simp
  next
    case 1 with section_unknown(1) [OF u, of D P st] s show False by simp
  next
    case 2 with section_unknown(2) [OF u, of D st] s show False by simp
  next
    case 3 with section_unknown(3) [OF u, of D P st] s show False by simp
  next
    case 4 with section_unknown(4) [OF u, of D P st] s show False by simp
  next
    case 5 with section_unknown(5) [OF u, of D P st] s show False by simp
  next
    case 6 with section_unknown(6) [OF u, of D st] s show False by simp
  next
    case 7 with section_unknown(7) [OF u, of D st] s show False by simp
  qed
  then show ?thesis ..
qed

lemma report_unknown_first:
  assumes u: "OP_TO_INFO_MAP g opcode = Some (OtherKey e)" and r: "opcode \<in> read_first D"
  shows "report P D g st = Inl ValueError"
proof -
  from r consider "opcode = NV097_SET_LIGHTING_ENABLE D" | "opcode = NV097_SET_SPECULAR_ENABLE D"
    | "opcode = NV097_SET_FOG_ENABLE D" | "opcode = NV097_SET_SKIN_MODE D"
    | "opcode = NV097_SET_POINT_PARAMS_ENABLE D"
    by (auto simp: read_first_def)
  then show ?thesis
    using section_unknown(1) [OF u, of D P st] section_unknown(2) [OF u, of D st]
      section_unknown(3) [OF u, of D P st] section_unknown(4) [OF u, of D P st]
      section_unknown(5) [OF u, of D P st] str_lighting_cases [of P D g st]
      str_specular_cases [of D g st] str_fog_cases [of P D g st] str_skinning_cases [of P D g st]
    by cases (auto simp: report_def ebind_def)
qed

lemma populate_op_unknown_tracked:
  "TRACKED_NV097_OPS (populate_op D g (OtherKey e)) = TRACKED_NV097_OPS g"
  by (simp add: populate_op_def split: option.splits)

lemma TRACKED_foldl_skip_unknown:
  "TRACKED_NV097_OPS (foldl (populate_op D) g (xs @ OtherKey e # ys)) =
   TRACKED_NV097_OPS (foldl (populate_op D) g (xs @ ys))"
proof -
  let ?g1 = "foldl (populate_op D) g xs"
  have "TRACKED_NV097_OPS (foldl (populate_op D) (populate_op D ?g1 (OtherKey e)) ys) =
        TRACKED_NV097_OPS (foldl (populate_op D) ?g1 ys)"
    using TRACKED_foldl_populate_op [of D "populate_op D ?g1 (OtherKey e)" ys]
      TRACKED_foldl_populate_op [of D ?g1 ys]
    by (simp add: populate_op_unknown_tracked)
  then show ?thesis by simp
qed

text \<open>
  Claim C3, as the code has it. A descriptor of none of the three known kinds makes
  \<^verbatim>\<open>get_raw_value\<close> and \<^verbatim>\<open>_process\<close> fail with the \<^verbatim>\<open>ValueError\<close> for an unsupported kind.
  The error reaches the caller of the report uncaught: the report fails when such a
  descriptor belongs to an opcode that it always reads, and it fails with that very
  \<^verbatim>\<open>ValueError\<close> when the opcode is one of those read first. For every other opcode, with or
  without a descriptor and whatever the frame state holds, \<^verbatim>\<open>get_raw_value\<close> and \<^verbatim>\<open>_process\<close>
  return: missing data never raises. The expansion \<^verbatim>\<open>_populate_tracked_ops\<close> never raises:
  on a key of another kind it adds no opcode to the tracked set, so that the registry
  tracks the same opcodes with the key as without it, and it records the key in the
  descriptor map when the key equals an opcode of the interest set.
\<close>

theorem unsupported_kind_raises:
  "(OP_TO_INFO_MAP g opcode = Some (OtherKey e) \<longrightarrow>
      get_raw_value g st opcode dflt = Inl ValueError \<and>
      process D g st opcode dflt ds = Inl ValueError)
   \<and> (OP_TO_INFO_MAP g opcode = Some (OtherKey e) \<and> opcode \<in> always_read D \<longrightarrow>
      (\<exists>err. report P D g st = Inl err))
   \<and> (OP_TO_INFO_MAP g opcode = Some (OtherKey e) \<and> opcode \<in> read_first D \<longrightarrow>
      report P D g st = Inl ValueError)
   \<and> ((\<forall>e'. OP_TO_INFO_MAP g opcode \<noteq> Some (OtherKey e')) \<longrightarrow>
      (\<exists>v. get_raw_value g st opcode dflt = Inr v) \<and> (\<exists>v. process D g st opcode dflt ds = Inr v))
   \<and> (\<exists>g'. populate_tracked_ops D g = Inr g')
   \<and> TRACKED_NV097_OPS (populate_op D g (OtherKey e)) = TRACKED_NV097_OPS g
   \<and> (e = Some b \<and> b \<in> BASE_TRACKED_NV097_OPS D \<longrightarrow>
      populate_op D g (OtherKey e) = g\<lparr>OP_TO_INFO_MAP := (OP_TO_INFO_MAP g)(b \<mapsto> OtherKey e)\<rparr>)
   \<and> (TRACKED_NV097_OPS g = {} \<and> kelvin_ops D = xs @ OtherKey e # ys \<longrightarrow>
      (\<exists>g'. populate_tracked_ops D g = Inr g'
         \<and> TRACKED_NV097_OPS g' = TRACKED_NV097_OPS (foldl (populate_op D) g (xs @ ys))))"
proof -
  have a: "get_raw_value g st opcode dflt = Inl ValueError \<and>
      process D g st opcode dflt ds = Inl ValueError"
    if "OP_TO_INFO_MAP g opcode = Some (OtherKey e)"
    using that by (simp add: get_raw_value_unknown process_def ebind_def)
  have b: "\<exists>err. report P D g st = Inl err"
    if "OP_TO_INFO_MAP g opcode = Some (OtherKey e) \<and> opcode \<in> always_read D"
    using that report_unknown_always by blast
  have b': "report P D g st = Inl ValueError"
    if "OP_TO_INFO_MAP g opcode = Some (OtherKey e) \<and> opcode \<in> read_first D"
    using that report_unknown_first by blast
  have c: "(\<exists>v. get_raw_value g st opcode dflt = Inr v) \<and> (\<exists>v. process D g st opcode dflt ds = Inr v)"
    if "\<forall>e'. OP_TO_INFO_MAP g opcode \<noteq> Some (OtherKey e')"
    using that get_raw_value_known process_known by blast
  have d: "\<exists>g'. populate_tracked_ops D g = Inr g'"
    by (simp add: populate_tracked_ops_def)
  have f: "populate_op D g (OtherKey e) = g\<lparr>OP_TO_INFO_MAP := (OP_TO_INFO_MAP g)(b \<mapsto> OtherKey e)\<rparr>"
    if "e = Some b \<and> b \<in> BASE_TRACKED_NV097_OPS D"
    using that by (simp add: populate_op_def)
  have h: "\<exists>g'. populate_tracked_ops D g = Inr g'
         \<and> TRACKED_NV097_OPS g' = TRACKED_NV097_OPS (foldl (populate_op D) g (xs @ ys))"
    if "TRACKED_NV097_OPS g = {} \<and> kelvin_ops D = xs @ OtherKey e # ys"
    using that TRACKED_foldl_skip_unknown [of D g xs e ys]
    by (simp add: populate_tracked_ops_def)
  from a b b' c d f h populate_op_unknown_tracked [of D g e] show ?thesis by blast
qed

text \<open>
  An instance: the globals loaded from the registry with two keys of unknown kind. The light
  control mode \<open>0x294\<close> cannot be reconstructed or decoded; the report fails on the specular
  switch \<open>0x3B8\<close>; the lighting switch \<open>0x314\<close> (no descriptor) and the array at \<open>0x3C0\<close> (never
  written) raise nothing.
\<close>

theorem unsupported_kind_raises_witness:
  "OP_TO_INFO_MAP (loaded_globals unknown_kind_data) 0x294 = Some (OtherKey (Some 0x294))
   \<and> get_raw_value (loaded_globals unknown_kind_data) Map.empty 0x294 (Some 0) = Inl ValueError
   \<and> process unknown_kind_data (loaded_globals unknown_kind_data) Map.empty 0x294 (Some 0)
       ''<UNKNOWN>'' = Inl ValueError
   \<and> report sample_python unknown_kind_data (loaded_globals unknown_kind_data) Map.empty
       = Inl ValueError
   \<and> (\<exists>v. get_raw_value (loaded_globals unknown_kind_data) Map.empty 0x314 None = Inr v)
   \<and> (\<exists>v. process unknown_kind_data (loaded_globals unknown_kind_data) Map.empty 0x3C0 None
          ''<UNKNOWN>'' = Inr v)
   \<and> TRACKED_NV097_OPS (populate_op unknown_kind_data initial_globals (OtherKey (Some 0x294))) = {}
   \<and> populate_op unknown_kind_data initial_globals (OtherKey (Some 0x294)) =
       initial_globals\<lparr>OP_TO_INFO_MAP :=
         (OP_TO_INFO_MAP initial_globals)(0x294 \<mapsto> OtherKey (Some 0x294))\<rparr>
   \<and> (\<exists>g'. populate_tracked_ops unknown_kind_data initial_globals = Inr g'
         \<and> TRACKED_NV097_OPS g' =
             TRACKED_NV097_OPS (foldl (populate_op unknown_kind_data) initial_globals
               ([IntOp 0x298] @ [OtherKey (Some 0x3B8), StateArray 0x3C0 16 4])))"
proof -
  let ?D = unknown_kind_data
  let ?g = "loaded_globals unknown_kind_data"
  have m: "OP_TO_INFO_MAP ?g 0x294 = Some (OtherKey (Some 0x294))"
    "OP_TO_INFO_MAP ?g 0x3B8 = Some (OtherKey (Some 0x3B8))"
    "OP_TO_INFO_MAP ?g 0x314 = None"
    "OP_TO_INFO_MAP ?g 0x3C0 = Some (StateArray 0x3C0 16 4)"
    by code_simp+
  have r: "0x3B8 \<in> read_first ?D" "0x294 \<in> BASE_TRACKED_NV097_OPS ?D"
    by (simp_all add: read_first_def BASE_TRACKED_NV097_OPS_def unknown_kind_data_def
        sample_data_def)
  from unsupported_kind_raises [where g = ?g and opcode = "0x294" and e = "Some 0x294"
      and st = Map.empty and dflt = "Some 0" and D = ?D and ds = "''<UNKNOWN>''"] m(1)
  have a: "get_raw_value ?g Map.empty 0x294 (Some 0) = Inl ValueError \<and>
           process ?D ?g Map.empty 0x294 (Some 0) ''<UNKNOWN>'' = Inl ValueError"
    by blast
  from unsupported_kind_raises [where g = ?g and opcode = "0x3B8" and e = "Some 0x3B8"
      and st = Map.empty and D = ?D and P = sample_python] m(2) r(1)
  have b: "report sample_python ?D ?g Map.empty = Inl ValueError"
    by blast
  from unsupported_kind_raises [where g = ?g and opcode = "0x314" and st = Map.empty
      and dflt = None] m(3)
  have c: "\<exists>v. get_raw_value ?g Map.empty 0x314 None = Inr v"
    by simp
  from unsupported_kind_raises [where g = ?g and opcode = "0x3C0" and st = Map.empty
      and dflt = None and D = ?D and ds = "''<UNKNOWN>''"] m(4)
  have d: "\<exists>v. process ?D ?g Map.empty 0x3C0 None ''<UNKNOWN>'' = Inr v"
    by simp
  from unsupported_kind_raises [where g = initial_globals and e = "Some 0x294" and D = ?D
      and b = "0x294"] r(2)
  have f: "TRACKED_NV097_OPS (populate_op ?D initial_globals (OtherKey (Some 0x294))) =
        TRACKED_NV097_OPS initial_globals"
    "populate_op ?D initial_globals (OtherKey (Some 0x294)) =
       initial_globals\<lparr>OP_TO_INFO_MAP :=
         (OP_TO_INFO_MAP initial_globals)(0x294 \<mapsto> OtherKey (Some 0x294))\<rparr>"
    by blast+
  have i: "TRACKED_NV097_OPS initial_globals = {}" by (simp add: initial_globals_def)
  have k: "kelvin_ops ?D = [IntOp 0x298] @ OtherKey (Some 0x294) #
      [OtherKey (Some 0x3B8), StateArray 0x3C0 16 4]"
    by (simp add: kelvin_ops_def unknown_kind_data_def)
  from unsupported_kind_raises [where g = initial_globals and e = "Some 0x294" and D = ?D
      and xs = "[IntOp 0x298]" and ys = "[OtherKey (Some 0x3B8), StateArray 0x3C0 16 4]"] i k
  have h: "\<exists>g'. populate_tracked_ops ?D initial_globals = Inr g'
         \<and> TRACKED_NV097_OPS g' =
             TRACKED_NV097_OPS (foldl (populate_op ?D) initial_globals
               ([IntOp 0x298] @ [OtherKey (Some 0x3B8), StateArray 0x3C0 16 4]))"
    by blast
  from m(1) a b c d f i h show ?thesis by simp
qed

text \<open>
  Claim C3 as the specification states it asks for the error also during expansion. On the
  registry with keys of unknown kind the expansion returns the loaded globals and raises
  nothing: the key at \<open>0x294\<close> is recorded, and no opcode is tracked for it.
\<close>

theorem expansion_unknown_kind_counterexample:
  "populate_tracked_ops unknown_kind_data initial_globals \<noteq> Inl ValueError
   \<and> populate_tracked_ops unknown_kind_data initial_globals = Inr (loaded_globals unknown_kind_data)
   \<and> OP_TO_INFO_MAP (loaded_globals unknown_kind_data) 0x294 = Some (OtherKey (Some 0x294))
   \<and> 0x294 \<notin> TRACKED_NV097_OPS (loaded_globals unknown_kind_data)
   \<and> 0x298 \<in> TRACKED_NV097_OPS (loaded_globals unknown_kind_data)"
proof -
  have "OP_TO_INFO_MAP (loaded_globals unknown_kind_data) 0x294 = Some (OtherKey (Some 0x294))"
    "0x294 \<notin> TRACKED_NV097_OPS (loaded_globals unknown_kind_data)"
    "0x298 \<in> TRACKED_NV097_OPS (loaded_globals unknown_kind_data)"
    by code_simp+
  then show ?thesis by (simp add: loaded_globals_populate)
qed

text \<open>
  Claim C10, as the code has it. When the registry holds a descriptor of none of the three
  known kinds whose base opcode is in the interest set, the expansion records it in the
  descriptor map (the assignment precedes the dispatch on the kind) and adds nothing to the
  tracked set. Provided that no later key of the registry has the same base (a later one
  replaces the entry), the descriptor is in the map after the expansion, and the error for
  the unknown kind appears only when \<^verbatim>\<open>get_raw_value\<close> is called on that base opcode.
\<close>

theorem unknown_kind_recorded:
  assumes "b \<in> BASE_TRACKED_NV097_OPS D"
  shows "populate_op D g (OtherKey (Some b)) =
           g\<lparr>OP_TO_INFO_MAP := (OP_TO_INFO_MAP g)(b \<mapsto> OtherKey (Some b))\<rparr>
         \<and> (TRACKED_NV097_OPS g = {} \<and> kelvin_ops D = xs @ OtherKey (Some b) # ys
              \<and> (\<forall>y\<in>set ys. base_op_of y \<noteq> Some b) \<longrightarrow>
            (\<exists>g'. populate_tracked_ops D g = Inr g'
               \<and> OP_TO_INFO_MAP g' b = Some (OtherKey (Some b))
               \<and> get_raw_value g' st b dflt = Inl ValueError))"
proof -
  have step: "populate_op D g (OtherKey (Some b)) =
           g\<lparr>OP_TO_INFO_MAP := (OP_TO_INFO_MAP g)(b \<mapsto> OtherKey (Some b))\<rparr>"
    using assms by (simp add: populate_op_def)
  have run: "\<exists>g'. populate_tracked_ops D g = Inr g'
               \<and> OP_TO_INFO_MAP g' b = Some (OtherKey (Some b))
               \<and> get_raw_value g' st b dflt = Inl ValueError"
    if h: "TRACKED_NV097_OPS g = {}" "kelvin_ops D = xs @ OtherKey (Some b) # ys"
      "\<forall>y\<in>set ys. base_op_of y \<noteq> Some b"
  proof -
    let ?g' = "foldl (populate_op D) g (kelvin_ops D)"
    have p: "populate_tracked_ops D g = Inr ?g'"
      using h(1) by (simp add: populate_tracked_ops_def)
    have "find (\<lambda>x. base_op_of x = Some b \<and> b \<in> BASE_TRACKED_NV097_OPS D) (rev ys) = None"
      using h(3) by (auto simp: find_None_iff)
    then have "find (\<lambda>x. base_op_of x = Some b \<and> b \<in> BASE_TRACKED_NV097_OPS D)
           (rev (kelvin_ops D)) = Some (OtherKey (Some b))"
      using assms by (simp add: h(2) find_append_case)
    then have m: "OP_TO_INFO_MAP ?g' b = Some (OtherKey (Some b))"
      by (simp add: foldl_populate_map)
    from p m get_raw_value_unknown [OF m] show ?thesis by blast
  qed
  from step run show ?thesis by blast
qed

text \<open>
  An instance: the registry in which the key of unknown kind at \<open>0x294\<close> stands between a
  scalar and two other keys.
\<close>

theorem unknown_kind_recorded_witness:
  "populate_op unknown_kind_data (populate_op unknown_kind_data initial_globals (IntOp 0x298))
       (OtherKey (Some 0x294)) =
     (populate_op unknown_kind_data initial_globals (IntOp 0x298))\<lparr>OP_TO_INFO_MAP :=
       (OP_TO_INFO_MAP (populate_op unknown_kind_data initial_globals (IntOp 0x298)))
         (0x294 \<mapsto> OtherKey (Some 0x294))\<rparr>
   \<and> populate_tracked_ops unknown_kind_data initial_globals = Inr (loaded_globals unknown_kind_data)
   \<and> OP_TO_INFO_MAP (loaded_globals unknown_kind_data) 0x294 = Some (OtherKey (Some 0x294))
   \<and> get_raw_value (loaded_globals unknown_kind_data) Map.empty 0x294 (Some 0) = Inl ValueError
   \<and> 0x294 \<notin> TRACKED_NV097_OPS (loaded_globals unknown_kind_data)"
proof -
  let ?D = unknown_kind_data
  have b: "0x294 \<in> BASE_TRACKED_NV097_OPS ?D"
    by (simp add: BASE_TRACKED_NV097_OPS_def unknown_kind_data_def sample_data_def)
  have h: "TRACKED_NV097_OPS initial_globals = {} \<and>
           kelvin_ops ?D = [IntOp 0x298] @ OtherKey (Some 0x294) #
             [OtherKey (Some 0x3B8), StateArray 0x3C0 16 4] \<and>
           (\<forall>y\<in>set [OtherKey (Some 0x3B8), StateArray 0x3C0 16 4]. base_op_of y \<noteq> Some 0x294)"
    by (simp add: initial_globals_def kelvin_ops_def unknown_kind_data_def)
  note t = unknown_kind_recorded [OF b, where xs = "[IntOp 0x298]"
      and ys = "[OtherKey (Some 0x3B8), StateArray 0x3C0 16 4]" and st = Map.empty
      and dflt = "Some 0"]
  from t [of "populate_op ?D initial_globals (IntOp 0x298)"]
  have 1: "populate_op ?D (populate_op ?D initial_globals (IntOp 0x298)) (OtherKey (Some 0x294)) =
     (populate_op ?D initial_globals (IntOp 0x298))\<lparr>OP_TO_INFO_MAP :=
       (OP_TO_INFO_MAP (populate_op ?D initial_globals (IntOp 0x298)))
         (0x294 \<mapsto> OtherKey (Some 0x294))\<rparr>"
    by blast
  from t [of initial_globals] h obtain g' where g': "populate_tracked_ops ?D initial_globals = Inr g'"
      "OP_TO_INFO_MAP g' 0x294 = Some (OtherKey (Some 0x294))"
      "get_raw_value g' Map.empty 0x294 (Some 0) = Inl ValueError"
    by blast
  from g'(1) have e: "g' = loaded_globals ?D" by (simp add: loaded_globals_populate)
  have n: "0x294 \<notin> TRACKED_NV097_OPS (loaded_globals ?D)" by code_simp
  from 1 g' n show ?thesis unfolding e by simp
qed

text \<open>
  Claim C10 as it is stated has no proviso. In a registry where an array
  with base \<open>0x294\<close> follows the key of unknown kind, the array replaces the entry, and
  \<^verbatim>\<open>get_raw_value\<close> on \<open>0x294\<close> raises nothing.
\<close>

theorem unknown_kind_overwritten_counterexample:
  "populate_tracked_ops overwritten_data initial_globals = Inr (loaded_globals overwritten_data)
   \<and> kelvin_ops overwritten_data = [OtherKey (Some 0x294), StateArray 0x294 4 2]
   \<and> 0x294 \<in> BASE_TRACKED_NV097_OPS overwritten_data
   \<and> OP_TO_INFO_MAP (loaded_globals overwritten_data) 0x294 = Some (StateArray 0x294 4 2)
   \<and> get_raw_value (loaded_globals overwritten_data) Map.empty 0x294 (Some 0)
       = Inr (Some (RawList [0, 0]))
   \<and> get_raw_value (loaded_globals overwritten_data) Map.empty 0x294 None = Inr None"
proof -
  have "kelvin_ops overwritten_data = [OtherKey (Some 0x294), StateArray 0x294 4 2]"
    "0x294 \<in> BASE_TRACKED_NV097_OPS overwritten_data"
    by (simp_all add: kelvin_ops_def overwritten_data_def BASE_TRACKED_NV097_OPS_def
        sample_data_def)
  moreover have "OP_TO_INFO_MAP (loaded_globals overwritten_data) 0x294 = Some (StateArray 0x294 4 2)"
    "get_raw_value (loaded_globals overwritten_data) Map.empty 0x294 (Some 0)
       = Inr (Some (RawList [0, 0]))"
    "get_raw_value (loaded_globals overwritten_data) Map.empty 0x294 None = Inr None"
    by code_simp+
  ultimately show ?thesis by (simp add: loaded_globals_populate)
qed

subsection \<open>Updates\<close>

lemma dom_update: "dom (update g st nv_op nv_param) \<subseteq> dom st \<union> TRACKED_NV097_OPS g"
  by (auto simp: update_def split: if_splits)

lemma dom_updates: "dom (updates g st ups) \<subseteq> dom st \<union> TRACKED_NV097_OPS g"
proof (induction ups arbitrary: st)
  case Nil
  show ?case by (simp add: updates_def)
next
  case (Cons u ups)
  obtain nv_op nv_param where u: "u = (nv_op, nv_param)" by (cases u)
  have "updates g st (u # ups) = updates g (update g st nv_op nv_param) ups"
    by (simp add: updates_def u)
  then show ?case
    using Cons.IH [of "update g st nv_op nv_param"] dom_update [of g st nv_op nv_param]
    by auto
qed

lemma updates_append: "updates g st (xs @ ys) = updates g (updates g st xs) ys"
  by (simp add: updates_def)

text \<open>
  Claim C6. For an opcode that is not in the tracked set, \<^verbatim>\<open>update\<close> does nothing: the frame
  state is the same afterwards, so the report is the same, and the untracked update can be
  dropped from any sequence of updates. Only tracked opcodes are ever inserted: the keys of
  a frame state built by updates from the empty one are tracked opcodes.
\<close>

theorem update_untracked_noop:
  "(nv_op \<notin> TRACKED_NV097_OPS g \<longrightarrow>
      update g st nv_op nv_param = st
      \<and> report P D g (update g st nv_op nv_param) = report P D g st
      \<and> updates g st (before @ (nv_op, nv_param) # after) = updates g st (before @ after))
   \<and> dom (update g st nv_op nv_param) \<subseteq> dom st \<union> TRACKED_NV097_OPS g
   \<and> dom (updates g Map.empty ups) \<subseteq> TRACKED_NV097_OPS g"
proof -
  have a: "update g st' nv_op nv_param = st'" if "nv_op \<notin> TRACKED_NV097_OPS g" for st'
    using that by (simp add: update_def)
  have b: "updates g st (before @ (nv_op, nv_param) # after) = updates g st (before @ after)"
    if "nv_op \<notin> TRACKED_NV097_OPS g"
  proof -
    have "updates g st (before @ (nv_op, nv_param) # after) =
          updates g (update g (updates g st before) nv_op nv_param) after"
      by (simp add: updates_def)
    also have "\<dots> = updates g (updates g st before) after"
      by (simp add: a [OF that])
    finally show ?thesis by (simp add: updates_append)
  qed
  have c: "dom (updates g Map.empty ups) \<subseteq> TRACKED_NV097_OPS g"
    using dom_updates [of g Map.empty ups] by simp
  from a b c dom_update [of g st nv_op nv_param] show ?thesis by simp
qed

text \<open>An instance: opcode \<open>0x100\<close> is in the sample registry but not in the interest set.\<close>

theorem update_untracked_noop_witness:
  "0x100 \<notin> TRACKED_NV097_OPS sample_globals
   \<and> update sample_globals [0x314 \<mapsto> 1] 0x100 7 = [0x314 \<mapsto> 1]
   \<and> report sample_python sample_data sample_globals (update sample_globals [0x314 \<mapsto> 1] 0x100 7)
       = report sample_python sample_data sample_globals [0x314 \<mapsto> 1]
   \<and> updates sample_globals Map.empty ([(0x314, 1)] @ (0x100, 7) # [(0x2A4, 1)])
       = updates sample_globals Map.empty ([(0x314, 1)] @ [(0x2A4, 1)])"
proof -
  have u: "0x100 \<notin> TRACKED_NV097_OPS sample_globals" by code_simp
  from update_untracked_noop [where nv_op = "0x100" and g = sample_globals
      and st = "[0x314 \<mapsto> 1]" and nv_param = 7 and P = sample_python and D = sample_data
      and before = "[]" and after = "[]"] u
  have 1: "update sample_globals [0x314 \<mapsto> 1] 0x100 7 = [0x314 \<mapsto> 1]
     \<and> report sample_python sample_data sample_globals (update sample_globals [0x314 \<mapsto> 1] 0x100 7)
       = report sample_python sample_data sample_globals [0x314 \<mapsto> 1]"
    by blast
  from update_untracked_noop [where nv_op = "0x100" and g = sample_globals
      and st = Map.empty and nv_param = 7 and before = "[(0x314, 1)]" and after = "[(0x2A4, 1)]"] u
  have 2: "updates sample_globals Map.empty ([(0x314, 1)] @ (0x100, 7) # [(0x2A4, 1)])
       = updates sample_globals Map.empty ([(0x314, 1)] @ [(0x2A4, 1)])"
    by blast
  from u 1 2 show ?thesis by blast
qed

subsection \<open>Decoding a struct array that is absent\<close>

text \<open>
  Claim C5 asks that decoding a \<^verbatim>\<open>StructStateArray\<close> whose raw value is absent gives
  \<^verbatim>\<open>struct_count\<close> lists of \<^verbatim>\<open>num_elements\<close> copies of the default text each. Line 179 of the
  source returns one flat list of \<^verbatim>\<open>num_elements\<close> copies instead, while the branch for a
  present value (lines 181-191) returns a list of lists. For three structs of two elements:
  nothing written gives two copies in one list; all six written gives three lists of two.
\<close>

theorem process_struct_array_absent_flat:
  "process sample_data struct_globals Map.empty 0x3C0 None ''<UNKNOWN>''
     = Inr (PList [''<UNKNOWN>'', ''<UNKNOWN>''])
   \<and> process sample_data struct_globals
       (updates struct_globals Map.empty
          [(0x3C0, 10), (0x3C4, 11), (0x3D0, 20), (0x3D4, 21), (0x3E0, 30), (0x3E4, 31)])
       0x3C0 None ''<UNKNOWN>''
     = Inr (PListList [[''0xA'', ''0xB''], [''0x14'', ''0x15''], [''0x1E'', ''0x1F'']])"
  by code_simp

subsection \<open>The bit reinterpretation helper\<close>

lemma be_word_bytes:
  "be_word (ucast (drop_bit 24 w)) (ucast (drop_bit 16 w)) (ucast (drop_bit 8 w)) (ucast w) = w"
proof (rule bit_word_eqI)
  fix n assume "n < LENGTH(32)"
  then consider "n < 8" | "8 \<le> n" "n < 16" | "16 \<le> n" "n < 24" | "24 \<le> n" "n < 32"
    by fastforce
  then show "bit (be_word (ucast (drop_bit 24 w)) (ucast (drop_bit 16 w))
                  (ucast (drop_bit 8 w)) (ucast w)) n = bit w n"
    by cases (auto simp: be_word_def bit_simps)
qed

lemma float_of_bits_inverse: "float_of_bits (bits_of_float x) = x"
proof (cases x)
  case (Float32 sg e m)
  have 1: "bit (bits_of_float x) 31 = sg"
    by (auto simp: bits_of_float_def Float32 bit_simps dest: bit_imp_le_length)
  have 2: "ucast (drop_bit 23 (bits_of_float x)) = e"
    by (rule bit_word_eqI) (auto simp: bits_of_float_def Float32 bit_simps dest: bit_imp_le_length)
  have 3: "ucast (bits_of_float x) = m"
    by (rule bit_word_eqI) (auto simp: bits_of_float_def Float32 bit_simps dest: bit_imp_le_length)
  show ?thesis
    unfolding float_of_bits_def 1 2 3 by (simp add: Float32)
qed

lemma bits_of_float_inverse: "bits_of_float (float_of_bits w) = w"
proof (rule bit_word_eqI)
  fix n assume "n < LENGTH(32)"
  then consider "n < 23" | "23 \<le> n" "n < 31" | "n = 31"
    by fastforce
  then show "bit (bits_of_float (float_of_bits w)) n = bit w n"
    by cases (auto simp: bits_of_float_def float_of_bits_def bit_simps)
qed

lemma quiet_not_signalling: "\<not> signalling x \<Longrightarrow> quiet x = x"
proof (cases x)
  case (Float32 sg e m)
  assume ns: "\<not> signalling x"
  show ?thesis
  proof (cases "is_nan x")
    case False
    then show ?thesis by (simp add: quiet_def)
  next
    case True
    with ns have b: "bit m 22" by (simp add: signalling_def Float32)
    have p: "bit ((2 :: 23 word) ^ 22) n \<longleftrightarrow> n = 22" for n
      unfolding bit_exp_iff by auto
    have "m OR 2 ^ 22 = m"
      by (rule bit_word_eqI) (auto simp only: bit_or_iff p b)
    with True show ?thesis by (simp add: quiet_def Float32)
  qed
qed

lemma pack_I_bytes:
  assumes "0 \<le> v" "v < 2 ^ 32"
  shows "pack_I v = Inr [ucast (drop_bit 24 (word_of_int v :: 32 word)),
           ucast (drop_bit 16 (word_of_int v :: 32 word)),
           ucast (drop_bit 8 (word_of_int v :: 32 word)), ucast (word_of_int v :: 32 word)]"
proof -
  have "(word_of_int (v div 2 ^ n) :: 8 word) = ucast (drop_bit n (word_of_int v :: 32 word))"
    if "n \<le> 24" for n
    using that
    by (intro bit_word_eqI) (auto simp: bit_simps simp flip: drop_bit_eq_div)
  from this [of 24] this [of 16] this [of 8] this [of 0] assms show ?thesis
    by (simp add: pack_I_def)
qed

lemma as_float_bits:
  assumes "0 \<le> v" "v < 2 ^ 32"
  shows "as_float v = Inr (quiet (float_of_bits (word_of_int v)))"
  by (simp add: as_float_def pack_I_bytes [OF assms] ebind_def unpack_f_def be_word_bytes)

lemma encode_float_bits: "encode_float x = Inr (uint (bits_of_float (quiet x)))"
  by (simp add: encode_float_def pack_f_def unpack_I_def Let_def be_word_bytes)

text \<open>
  Claim C8, as the code has it. \<^verbatim>\<open>as_float\<close> packs and unpacks in the same (network) byte
  order, so the bytes go back to the pattern they came from, whatever the platform, and the
  result is the single precision value of that pattern, converted to a double. For every
  pattern that is not a signalling NaN this is the bit-for-bit reinterpretation, and
  \<^verbatim>\<open>as_float\<close> and the matching encode operation are inverse to each other in both
  directions: zero, negative zero, the infinities and the quiet NaNs included. For a
  signalling NaN the result is that NaN made quiet. Outside of the unsigned 32-bit range
  \<^verbatim>\<open>struct.pack\<close> raises.
\<close>

theorem as_float_reinterprets:
  "(0 \<le> v \<and> v < 2 ^ 32 \<longrightarrow> as_float v = Inr (quiet (float_of_bits (word_of_int v))))
   \<and> (0 \<le> v \<and> v < 2 ^ 32 \<and> \<not> signalling (float_of_bits (word_of_int v)) \<longrightarrow>
      as_float v = Inr (float_of_bits (word_of_int v))
      \<and> ebind (as_float v) encode_float = Inr v)
   \<and> (\<not> signalling x \<longrightarrow>
      (\<exists>v'. encode_float x = Inr v' \<and> 0 \<le> v' \<and> v' < 2 ^ 32 \<and> as_float v' = Inr x))
   \<and> (v < 0 \<or> 2 ^ 32 \<le> v \<longrightarrow> as_float v = Inl StructError)"
proof -
  have a: "as_float v = Inr (quiet (float_of_bits (word_of_int v)))" if "0 \<le> v \<and> v < 2 ^ 32"
    using that by (simp add: as_float_bits)
  have b: "as_float v = Inr (float_of_bits (word_of_int v))
      \<and> ebind (as_float v) encode_float = Inr v"
    if "0 \<le> v \<and> v < 2 ^ 32 \<and> \<not> signalling (float_of_bits (word_of_int v))"
  proof -
    have "uint (word_of_int v :: 32 word) = v"
      using that by (simp add: uint_word_of_int take_bit_int_eq_self)
    then show ?thesis
      using that
      by (simp add: as_float_bits ebind_def encode_float_bits bits_of_float_inverse
          quiet_not_signalling)
  qed
  have c: "\<exists>v'. encode_float x = Inr v' \<and> 0 \<le> v' \<and> v' < 2 ^ 32 \<and> as_float v' = Inr x"
    if "\<not> signalling x"
  proof -
    let ?v = "uint (bits_of_float x)"
    have r: "0 \<le> ?v" "?v < 2 ^ 32"
      using uint_bounded [of "bits_of_float x"] by simp_all
    have "as_float ?v = Inr x"
      by (simp add: as_float_bits [OF r] float_of_bits_inverse quiet_not_signalling [OF that])
    with r show ?thesis by (simp add: encode_float_bits quiet_not_signalling [OF that])
  qed
  have d: "as_float v = Inl StructError" if "v < 0 \<or> 2 ^ 32 \<le> v"
    using that by (auto simp: as_float_def pack_I_def ebind_def)
  from a b c d show ?thesis by blast
qed

text \<open>
  Instances: the patterns of \<open>1.0\<close>, \<open>0.0\<close>, negative zero, infinity, a quiet NaN and a
  signalling NaN; and two integers out of range.
\<close>

theorem as_float_reinterprets_witness:
  "as_float 0x3F800000 = Inr (Float32 False 127 0)
   \<and> ebind (as_float 0x3F800000) encode_float = Inr 0x3F800000
   \<and> as_float 0 = Inr (Float32 False 0 0)
   \<and> as_float 0x80000000 = Inr (Float32 True 0 0)
   \<and> as_float 0x7F800000 = Inr (Float32 False 255 0)
   \<and> as_float 0xFFC00001 = Inr (Float32 True 255 0x400001)
   \<and> as_float 0x7F800001 = Inr (quiet (Float32 False 255 1))
   \<and> ebind (encode_float (Float32 True 255 0x400001)) as_float = Inr (Float32 True 255 0x400001)
   \<and> as_float (2 ^ 32) = Inl StructError
   \<and> as_float (- 1) = Inl StructError"
proof -
  note t = as_float_reinterprets
  have r: "(0 :: int) \<le> 0x3F800000 \<and> (0x3F800000 :: int) < 2 ^ 32
        \<and> \<not> signalling (float_of_bits (word_of_int 0x3F800000))"
    "(0 :: int) \<le> 0 \<and> (0 :: int) < 2 ^ 32 \<and> \<not> signalling (float_of_bits (word_of_int 0))"
    "(0 :: int) \<le> 0x80000000 \<and> (0x80000000 :: int) < 2 ^ 32
        \<and> \<not> signalling (float_of_bits (word_of_int 0x80000000))"
    "(0 :: int) \<le> 0x7F800000 \<and> (0x7F800000 :: int) < 2 ^ 32
        \<and> \<not> signalling (float_of_bits (word_of_int 0x7F800000))"
    "(0 :: int) \<le> 0xFFC00001 \<and> (0xFFC00001 :: int) < 2 ^ 32
        \<and> \<not> signalling (float_of_bits (word_of_int 0xFFC00001))"
    "(0 :: int) \<le> 0x7F800001 \<and> (0x7F800001 :: int) < 2 ^ 32"
    "\<not> signalling (Float32 True 255 0x400001)"
    by code_simp+
  have fb: "float_of_bits (word_of_int 0x3F800000) = Float32 False 127 0"
    "float_of_bits (word_of_int 0) = Float32 False 0 0"
    "float_of_bits (word_of_int 0x80000000) = Float32 True 0 0"
    "float_of_bits (word_of_int 0x7F800000) = Float32 False 255 0"
    "float_of_bits (word_of_int 0xFFC00001) = Float32 True 255 0x400001"
    "float_of_bits (word_of_int 0x7F800001) = Float32 False 255 1"
    by code_simp+
  have 1: "as_float 0x3F800000 = Inr (Float32 False 127 0)
     \<and> ebind (as_float 0x3F800000) encode_float = Inr 0x3F800000"
    using t [of "0x3F800000"] r(1) unfolding fb [symmetric] by blast
  have 2: "as_float 0 = Inr (Float32 False 0 0)"
    using t [of 0] r(2) unfolding fb [symmetric] by blast
  have 3: "as_float 0x80000000 = Inr (Float32 True 0 0)"
    using t [of "0x80000000"] r(3) unfolding fb [symmetric] by blast
  have 4: "as_float 0x7F800000 = Inr (Float32 False 255 0)"
    using t [of "0x7F800000"] r(4) unfolding fb [symmetric] by blast
  have 5: "as_float 0xFFC00001 = Inr (Float32 True 255 0x400001)"
    using t [of "0xFFC00001"] r(5) unfolding fb [symmetric] by blast
  have 6: "as_float 0x7F800001 = Inr (quiet (Float32 False 255 1))"
    using t [of "0x7F800001"] r(6) unfolding fb [symmetric] by blast
  from t [of 0 "Float32 True 255 0x400001"] r(7)
  obtain v' where "encode_float (Float32 True 255 0x400001) = Inr v'"
    "as_float v' = Inr (Float32 True 255 0x400001)"
    by blast
  then have 7: "ebind (encode_float (Float32 True 255 0x400001)) as_float
      = Inr (Float32 True 255 0x400001)"
    by (simp add: ebind_def)
  have 8: "as_float (2 ^ 32) = Inl StructError" "as_float (- 1) = Inl StructError"
    using t [of "2 ^ 32"] t [of "- 1"] by simp_all
  from 1 2 3 4 5 6 7 8 show ?thesis by blast
qed

text \<open>
  Claim C8 as the specification states it has the bit pattern kept for every value, those
  with all exponent bits set included. The signalling NaN \<open>0x7F800001\<close> comes back with
  fraction \<open>0x400001\<close> instead of \<open>1\<close>, and encodes to \<open>0x7FC00001\<close>.
\<close>

theorem as_float_signalling_counterexample:
  "as_float 0x7F800001 = Inr (Float32 False 255 0x400001)
   \<and> float_of_bits 0x7F800001 = Float32 False 255 1
   \<and> ebind (as_float 0x7F800001) encode_float = Inr 0x7FC00001
   \<and> ebind (encode_float (Float32 False 255 1)) as_float = Inr (Float32 False 255 0x400001)"
  by code_simp

subsection \<open>The texture generation section\<close>

lemma texgen_lines_lists:
  assumes "\<forall>i\<in>set is. i < length ss \<and> i < length ts \<and> i < length rs \<and> i < length qs"
  shows "texgen_lines P (PList ss) (PList ts) (PList rs) (PList qs) is =
           Inr (map (\<lambda>i. texgen_text i (ss ! i) (ts ! i) (rs ! i) (qs ! i)) is)"
  using assms by (induction "is") (simp_all add: texgen_line_def ebind_def)

lemma texgen_section_lists:
  assumes "length ss \<le> length ts" "length ss \<le> length rs" "length ss \<le> length qs"
  shows "texgen_section P (PList ss) (PList ts) (PList rs) (PList qs) =
           Inr (if ts = [] \<or> rs = [] \<or> qs = [] then []
                else map (\<lambda>i. texgen_text i (ss ! i) (ts ! i) (rs ! i) (qs ! i)) [0..<length ss])"
proof (cases "ss = []")
  case True
  then show ?thesis by (simp add: texgen_section_def)
next
  case False
  have "\<forall>i\<in>set [0..<length ss]. i < length ss \<and> i < length ts \<and> i < length rs \<and> i < length qs"
    using assms by auto
  from texgen_lines_lists [OF this] False show ?thesis
    by (simp add: texgen_section_def)
qed

lemma process0_array_empty_state:
  assumes "OP_TO_INFO_MAP g opcode = Some (StateArray b s n)"
  shows "process0 D g Map.empty opcode = Inr (PList (replicate (nat n) ''<UNKNOWN>''))"
proof (cases "nat n = 0")
  case True
  then show ?thesis
    using assms
    by (simp add: process0_def process_def get_raw_value_def array_values_range ebind_def
        process_array_def enumerate_eq_zip)
next
  case False
  then have "0 < nat n \<and> state_get Map.empty (b + int 0 * s) None = None"
    by (simp add: state_get_def)
  then have "\<exists>i<nat n. state_get Map.empty (b + int i * s) None = None"
    by blast
  then show ?thesis
    using assms
    by (simp add: process0_def process_def get_raw_value_def array_values_range ebind_def)
qed

text \<open>
  Claim C4, as the code has it. The source tests the truth value of the four decoded
  values and does not compare their lengths. Nothing follows the header when one of the
  four is empty; when the four are non-empty lists of one length, one line per index
  combines the four decoded strings. An array that was never written decodes to as many
  copies of \<^verbatim>\<open><UNKNOWN>\<close> as it has elements, so with no updates at all, and four arrays of
  \<open>n\<close> elements, the section has \<open>n\<close> lines that show \<^verbatim>\<open><UNKNOWN>\<close> four times each.
\<close>

theorem texgen_lines_emitted:
  "(\<not> (bool_processed s_vals \<and> bool_processed t_vals \<and> bool_processed r_vals
        \<and> bool_processed q_vals) \<longrightarrow>
      texgen_section P s_vals t_vals r_vals q_vals = Inr [])
   \<and> (ss \<noteq> [] \<and> length ts = length ss \<and> length rs = length ss \<and> length qs = length ss \<longrightarrow>
      texgen_section P (PList ss) (PList ts) (PList rs) (PList qs) =
        Inr (map (\<lambda>i. texgen_text i (ss ! i) (ts ! i) (rs ! i) (qs ! i)) [0..<length ss]))
   \<and> (OP_TO_INFO_MAP g (NV097_SET_TEXGEN_S D) = Some (StateArray b1 s1 n)
      \<and> OP_TO_INFO_MAP g (NV097_SET_TEXGEN_T D) = Some (StateArray b2 s2 n)
      \<and> OP_TO_INFO_MAP g (NV097_SET_TEXGEN_R D) = Some (StateArray b3 s3 n)
      \<and> OP_TO_INFO_MAP g (NV097_SET_TEXGEN_Q D) = Some (StateArray b4 s4 n) \<longrightarrow>
      str_texgen P D g Map.empty =
        Inr (''TexGen: '' #
          map (\<lambda>i. texgen_text i ''<UNKNOWN>'' ''<UNKNOWN>'' ''<UNKNOWN>'' ''<UNKNOWN>'')
            [0..<nat n]))"
proof -
  have a: "texgen_section P s_vals t_vals r_vals q_vals = Inr []"
    if "\<not> (bool_processed s_vals \<and> bool_processed t_vals \<and> bool_processed r_vals
        \<and> bool_processed q_vals)"
    using that by (auto simp: texgen_section_def)
  have b: "texgen_section P (PList ss) (PList ts) (PList rs) (PList qs) =
        Inr (map (\<lambda>i. texgen_text i (ss ! i) (ts ! i) (rs ! i) (qs ! i)) [0..<length ss])"
    if "ss \<noteq> [] \<and> length ts = length ss \<and> length rs = length ss \<and> length qs = length ss"
    using that texgen_section_lists [of ss ts rs qs P] by auto
  have c: "str_texgen P D g Map.empty =
        Inr (''TexGen: '' #
          map (\<lambda>i. texgen_text i ''<UNKNOWN>'' ''<UNKNOWN>'' ''<UNKNOWN>'' ''<UNKNOWN>'')
            [0..<nat n])"
    if h: "OP_TO_INFO_MAP g (NV097_SET_TEXGEN_S D) = Some (StateArray b1 s1 n)
      \<and> OP_TO_INFO_MAP g (NV097_SET_TEXGEN_T D) = Some (StateArray b2 s2 n)
      \<and> OP_TO_INFO_MAP g (NV097_SET_TEXGEN_R D) = Some (StateArray b3 s3 n)
      \<and> OP_TO_INFO_MAP g (NV097_SET_TEXGEN_Q D) = Some (StateArray b4 s4 n)"
  proof -
    let ?u = "replicate (nat n) ''<UNKNOWN>''"
    have sec: "texgen_section P (PList ?u) (PList ?u) (PList ?u) (PList ?u) =
          Inr (map (\<lambda>i. texgen_text i ''<UNKNOWN>'' ''<UNKNOWN>'' ''<UNKNOWN>'' ''<UNKNOWN>'')
            [0..<nat n])"
      using texgen_section_lists [of ?u ?u ?u ?u P] by (auto simp: map_upt_eqI)
    show ?thesis
      using h
      by (simp add: str_texgen_def process0_array_empty_state ebind_def sec)
  qed
  from a b c show ?thesis by blast
qed


text \<open>
  Instances: one of the four empty; four lists of two; and the sample registry (four arrays
  of four elements) with no updates.
\<close>

theorem texgen_lines_emitted_witness:
  "texgen_section sample_python (PList [''a'', ''b'']) (PList []) (PList [''c'']) (PList [''d''])
     = Inr []
   \<and> texgen_section sample_python (PList [''s0'', ''s1'']) (PList [''t0'', ''t1''])
       (PList [''r0'', ''r1'']) (PList [''q0'', ''q1''])
     = Inr [texgen_text 0 ''s0'' ''t0'' ''r0'' ''q0'', texgen_text 1 ''s1'' ''t1'' ''r1'' ''q1'']
   \<and> str_texgen sample_python sample_data sample_globals Map.empty
     = Inr [''TexGen: '',
            texgen_text 0 ''<UNKNOWN>'' ''<UNKNOWN>'' ''<UNKNOWN>'' ''<UNKNOWN>'',
            texgen_text 1 ''<UNKNOWN>'' ''<UNKNOWN>'' ''<UNKNOWN>'' ''<UNKNOWN>'',
            texgen_text 2 ''<UNKNOWN>'' ''<UNKNOWN>'' ''<UNKNOWN>'' ''<UNKNOWN>'',
            texgen_text 3 ''<UNKNOWN>'' ''<UNKNOWN>'' ''<UNKNOWN>'' ''<UNKNOWN>'']"
proof -
  have 1: "texgen_section sample_python (PList [''a'', ''b'']) (PList []) (PList [''c''])
      (PList [''d'']) = Inr []"
    using texgen_lines_emitted [where s_vals = "PList [''a'', ''b'']" and t_vals = "PList []"
        and r_vals = "PList [''c'']" and q_vals = "PList [''d'']" and P = sample_python]
    by simp
  have 2: "texgen_section sample_python (PList [''s0'', ''s1'']) (PList [''t0'', ''t1''])
       (PList [''r0'', ''r1'']) (PList [''q0'', ''q1''])
     = Inr [texgen_text 0 ''s0'' ''t0'' ''r0'' ''q0'', texgen_text 1 ''s1'' ''t1'' ''r1'' ''q1'']"
    using texgen_lines_emitted [where ss = "[''s0'', ''s1'']" and ts = "[''t0'', ''t1'']"
        and rs = "[''r0'', ''r1'']" and qs = "[''q0'', ''q1'']" and P = sample_python]
    by (simp add: upt_conv_Cons)
  have d: "OP_TO_INFO_MAP sample_globals (NV097_SET_TEXGEN_S sample_data) = Some (StateArray 0x3C0 16 4)
      \<and> OP_TO_INFO_MAP sample_globals (NV097_SET_TEXGEN_T sample_data) = Some (StateArray 0x3C4 16 4)
      \<and> OP_TO_INFO_MAP sample_globals (NV097_SET_TEXGEN_R sample_data) = Some (StateArray 0x3C8 16 4)
      \<and> OP_TO_INFO_MAP sample_globals (NV097_SET_TEXGEN_Q sample_data) = Some (StateArray 0x3CC 16 4)"
    by code_simp
  have u: "[0..<nat 4] = [0, 1, 2, 3]" by code_simp
  have 3: "str_texgen sample_python sample_data sample_globals Map.empty
     = Inr [''TexGen: '',
            texgen_text 0 ''<UNKNOWN>'' ''<UNKNOWN>'' ''<UNKNOWN>'' ''<UNKNOWN>'',
            texgen_text 1 ''<UNKNOWN>'' ''<UNKNOWN>'' ''<UNKNOWN>'' ''<UNKNOWN>'',
            texgen_text 2 ''<UNKNOWN>'' ''<UNKNOWN>'' ''<UNKNOWN>'' ''<UNKNOWN>'',
            texgen_text 3 ''<UNKNOWN>'' ''<UNKNOWN>'' ''<UNKNOWN>'' ''<UNKNOWN>'']"
    using texgen_lines_emitted [where g = sample_globals and D = sample_data
        and P = sample_python and n = 4, THEN conjunct2, THEN conjunct2, rule_format, OF d]
    unfolding u by simp
  from 1 2 3 show ?thesis by blast
qed

text \<open>
  Claim C4 as the specification states it has the section empty when there were no updates,
  and lines only for four values of equal length. On the sample registry the report without
  any update has four lines after the header; and four values of lengths 1, 2, 2, 2 give
  one line.
\<close>

theorem texgen_no_updates_counterexample:
  "str_texgen sample_python sample_data sample_globals Map.empty \<noteq> Inr [''TexGen: '']
   \<and> report sample_python sample_data sample_globals Map.empty =
     Inr (join [newline, CHR '' '', CHR '' '']
       [''  Lighting: False'', ''Specular enable: False'', ''Fog enable: False'',
        ''Skinning mode: <UNKNOWN>'', ''Point params enable: False'', ''TexGen: '',
        texgen_text 0 ''<UNKNOWN>'' ''<UNKNOWN>'' ''<UNKNOWN>'' ''<UNKNOWN>'',
        texgen_text 1 ''<UNKNOWN>'' ''<UNKNOWN>'' ''<UNKNOWN>'' ''<UNKNOWN>'',
        texgen_text 2 ''<UNKNOWN>'' ''<UNKNOWN>'' ''<UNKNOWN>'' ''<UNKNOWN>'',
        texgen_text 3 ''<UNKNOWN>'' ''<UNKNOWN>'' ''<UNKNOWN>'' ''<UNKNOWN>''])
   \<and> texgen_section sample_python (PList [''s0'']) (PList [''t0'', ''t1''])
       (PList [''r0'', ''r1'']) (PList [''q0'', ''q1''])
     = Inr [texgen_text 0 ''s0'' ''t0'' ''r0'' ''q0'']"
  by code_simp

subsection \<open>The report on a well formed registry\<close>

lemma get_raw_value_StateArray_eq:
  assumes "OP_TO_INFO_MAP g opcode = Some (StateArray b s n)"
  shows "get_raw_value g st opcode dflt =
           Inr (if \<exists>i<nat n. state_get st (b + int i * s) dflt = None then None
                else Some (RawList (map (\<lambda>i. the (state_get st (b + int i * s) dflt)) [0..<nat n])))"
  using assms by (simp add: get_raw_value_def array_values_range)

lemma uint32_state_update:
  "uint32_state st \<Longrightarrow> uint32 nv_param \<Longrightarrow> uint32_state (update g st nv_op nv_param)"
  by (simp add: uint32_state_def update_def)

lemma uint32_state_updates:
  assumes "uint32_state st" "\<forall>(nv_op, nv_param)\<in>set ups. uint32 nv_param"
  shows "uint32_state (updates g st ups)"
  using assms
proof (induction ups arbitrary: st)
  case Nil
  then show ?case by (simp add: updates_def)
next
  case (Cons u ups)
  obtain nv_op nv_param where u: "u = (nv_op, nv_param)" by (cases u)
  have "updates g st (u # ups) = updates g (update g st nv_op nv_param) ups"
    by (simp add: updates_def u)
  moreover have "uint32_state (update g st nv_op nv_param)"
    using Cons.prems u by (simp add: uint32_state_update)
  ultimately show ?case using Cons.IH Cons.prems(2) by simp
qed

lemma known_kind_iff: "known_kind g opcode \<longleftrightarrow> (\<forall>e. OP_TO_INFO_MAP g opcode \<noteq> Some (OtherKey e))"
  by (auto simp: known_kind_def split: option.splits op_info.splits)

lemma get_raw_value_known_kind:
  "known_kind g opcode \<Longrightarrow> \<exists>v. get_raw_value g st opcode dflt = Inr v"
  by (simp add: known_kind_iff get_raw_value_known)

lemma process0_known_kind:
  "known_kind g opcode \<Longrightarrow> \<exists>v. process0 D g st opcode = Inr v"
  by (simp add: known_kind_iff process0_def process_known)

lemma array_count_Some:
  "array_count g opcode = Some n \<longleftrightarrow> (\<exists>b s. OP_TO_INFO_MAP g opcode = Some (StateArray b s n))"
  by (auto simp: array_count_def split: option.splits op_info.splits)

lemma str_lighting_returns:
  assumes "known_kind g (NV097_SET_LIGHTING_ENABLE D)" "known_kind g (NV097_SET_TWO_SIDE_LIGHT_EN D)"
    "known_kind g (NV097_SET_COLOR_MATERIAL D)" "known_kind g (NV097_SET_LIGHT_CONTROL D)"
    "known_kind g (NV097_SET_LIGHT_ENABLE_MASK D)"
  shows "\<exists>ls. str_lighting P D g st = Inr ls"
proof -
  obtain v1 v2 where v: "get_raw_value g st (NV097_SET_LIGHTING_ENABLE D) (Some 0) = Inr v1"
      "get_raw_value g st (NV097_SET_TWO_SIDE_LIGHT_EN D) (Some 0) = Inr v2"
    using assms(1,2) get_raw_value_known_kind by blast
  obtain p1 p2 p3 where p: "process0 D g st (NV097_SET_COLOR_MATERIAL D) = Inr p1"
      "process0 D g st (NV097_SET_LIGHT_CONTROL D) = Inr p2"
      "process0 D g st (NV097_SET_LIGHT_ENABLE_MASK D) = Inr p3"
    using process0_known_kind [OF assms(3), of D st] process0_known_kind [OF assms(4), of D st]
      process0_known_kind [OF assms(5), of D st] by auto
  from v p show ?thesis
    by (simp add: str_lighting_def ebind_def Let_def)
qed

lemma str_specular_returns:
  assumes "known_kind g (NV097_SET_SPECULAR_ENABLE D)"
  shows "\<exists>ls. str_specular D g st = Inr ls"
proof -
  obtain v where "get_raw_value g st (NV097_SET_SPECULAR_ENABLE D) (Some 0) = Inr v"
    using assms get_raw_value_known_kind by blast
  then show ?thesis by (simp add: str_specular_def ebind_def)
qed

lemma str_fog_returns:
  assumes "known_kind g (NV097_SET_FOG_ENABLE D)" "known_kind g (NV097_SET_FOG_GEN_MODE D)"
  shows "\<exists>ls. str_fog P D g st = Inr ls"
proof -
  obtain v where v: "get_raw_value g st (NV097_SET_FOG_ENABLE D) (Some 0) = Inr v"
    using assms(1) get_raw_value_known_kind by blast
  obtain p where p: "process0 D g st (NV097_SET_FOG_GEN_MODE D) = Inr p"
    using process0_known_kind [OF assms(2), of D st] by auto
  from v p show ?thesis by (simp add: str_fog_def ebind_def Let_def)
qed

lemma str_skinning_returns:
  assumes "known_kind g (NV097_SET_SKIN_MODE D)"
  shows "\<exists>ls. str_skinning P D g st = Inr ls"
proof -
  obtain p where "process0 D g st (NV097_SET_SKIN_MODE D) = Inr p"
    using process0_known_kind [OF assms, of D st] by auto
  then show ?thesis by (simp add: str_skinning_def ebind_def)
qed

lemma str_point_smooth_returns:
  assumes "known_kind g (NV097_SET_POINT_SMOOTH_ENABLE D)"
  shows "\<exists>ls. str_point_smooth D g st = Inr ls"
proof -
  obtain v where "get_raw_value g st (NV097_SET_POINT_SMOOTH_ENABLE D) (Some 0) = Inr v"
    using assms get_raw_value_known_kind by blast
  then show ?thesis by (simp add: str_point_smooth_def ebind_def)
qed

lemma as_float_uint32: "uint32 v \<Longrightarrow> \<exists>x. as_float v = Inr x"
  by (simp add: uint32_def as_float_bits)

lemma point_params_items:
  assumes d: "OP_TO_INFO_MAP g opcode = Some (StateArray b s n)" and n: "n \<le> 0 \<or> 8 \<le> n"
    and st: "uint32_state st"
  shows "\<exists>params. get_raw_value g st opcode None = Inr params \<and>
           (bool_raw params \<longrightarrow> (\<forall>i<8. \<exists>x. as_float_item params i = Inr x))"
proof (cases "\<exists>i<nat n. state_get st (b + int i * s) None = None")
  case True
  then have "get_raw_value g st opcode None = Inr None"
    using get_raw_value_StateArray_eq [OF d, of st None] by simp
  then show ?thesis by simp
next
  case False
  let ?xs = "map (\<lambda>i. the (state_get st (b + int i * s) None)) [0..<nat n]"
  have r: "get_raw_value g st opcode None = Inr (Some (RawList ?xs))"
    using False get_raw_value_StateArray_eq [OF d, of st None] by simp
  have "\<exists>x. as_float_item (Some (RawList ?xs)) i = Inr x" if "?xs \<noteq> []" "i < 8" for i
  proof -
    from that(1) n have "8 \<le> nat n" by auto
    with that(2) have i: "i < nat n" by simp
    with False obtain v where v: "state_get st (b + int i * s) None = Some v"
      by auto
    then have "st (b + int i * s) = Some v"
      by (simp add: state_get_def split: option.splits)
    with st have "uint32 v" by (auto simp: uint32_state_def)
    then show ?thesis
      using i v by (simp add: as_float_uint32)
  qed
  with r show ?thesis by simp
qed


lemma str_point_params_returns:
  assumes "known_kind g (NV097_SET_POINT_PARAMS_ENABLE D)" "known_kind g (NV097_SET_POINT_SIZE D)"
    and d: "OP_TO_INFO_MAP g (NV097_SET_POINT_PARAMS D) = Some (StateArray b s n)"
    and n: "n \<le> 0 \<or> 8 \<le> n" and st: "uint32_state st"
  shows "\<exists>ls. str_point_params P D g st = Inr ls"
proof -
  obtain v where v: "get_raw_value g st (NV097_SET_POINT_PARAMS_ENABLE D) (Some 0) = Inr v"
    using assms(1) get_raw_value_known_kind by blast
  obtain p where p: "process0 D g st (NV097_SET_POINT_SIZE D) = Inr p"
    using process0_known_kind [OF assms(2), of D st] by auto
  obtain params where params: "get_raw_value g st (NV097_SET_POINT_PARAMS D) None = Inr params"
      "bool_raw params \<longrightarrow> (\<forall>i<8. \<exists>x. as_float_item params i = Inr x)"
    using point_params_items [OF d n st] by blast
  show ?thesis
  proof (cases "bool_raw params")
    case False
    with v p params(1) show ?thesis
      by (simp add: str_point_params_def ebind_def Let_def)
  next
    case True
    with params(2) have a: "\<And>i. i < 8 \<Longrightarrow> \<exists>x. as_float_item params i = Inr x" by simp
    have "\<exists>x. as_float_item params 0 = Inr x" "\<exists>x. as_float_item params 1 = Inr x"
      "\<exists>x. as_float_item params 2 = Inr x" "\<exists>x. as_float_item params 3 = Inr x"
      "\<exists>x. as_float_item params 6 = Inr x" "\<exists>x. as_float_item params 7 = Inr x"
      by (simp_all add: a)
    then obtain x0 x1 x2 x3 x6 x7 where x: "as_float_item params 0 = Inr x0"
        "as_float_item params 1 = Inr x1" "as_float_item params 2 = Inr x2"
        "as_float_item params 3 = Inr x3" "as_float_item params 6 = Inr x6"
        "as_float_item params 7 = Inr x7"
      by auto
    from v p params(1) True x show ?thesis
      by (simp add: str_point_params_def ebind_def Let_def)
  qed
qed

lemma process0_array_length:
  assumes d: "OP_TO_INFO_MAP g opcode = Some (StateArray b s n)"
  shows "\<exists>xs. process0 D g st opcode = Inr (PList xs) \<and> length xs = nat n"
  using d
  by (simp add: process0_def process_def get_raw_value_StateArray_eq [OF d] ebind_def
      process_array_def)

lemma str_texgen_returns:
  assumes c: "array_count g (NV097_SET_TEXGEN_S D) = Some n"
    "array_count g (NV097_SET_TEXGEN_T D) = Some nt"
    "array_count g (NV097_SET_TEXGEN_R D) = Some nr"
    "array_count g (NV097_SET_TEXGEN_Q D) = Some nq"
    and n: "(n \<le> nt \<and> n \<le> nr \<and> n \<le> nq) \<or> nt \<le> 0 \<or> nr \<le> 0 \<or> nq \<le> 0"
  shows "\<exists>ls. str_texgen P D g st = Inr ls"
proof -
  from c obtain ss ts rs qs where
    p: "process0 D g st (NV097_SET_TEXGEN_S D) = Inr (PList ss)"
       "process0 D g st (NV097_SET_TEXGEN_T D) = Inr (PList ts)"
       "process0 D g st (NV097_SET_TEXGEN_R D) = Inr (PList rs)"
       "process0 D g st (NV097_SET_TEXGEN_Q D) = Inr (PList qs)"
    and l: "length ss = nat n" "length ts = nat nt" "length rs = nat nr" "length qs = nat nq"
    unfolding array_count_Some by (metis process0_array_length)
  have "\<exists>ls. texgen_section P (PList ss) (PList ts) (PList rs) (PList qs) = Inr ls"
  proof (cases "ts = [] \<or> rs = [] \<or> qs = []")
    case True
    then show ?thesis by (auto simp: texgen_section_def)
  next
    case False
    with n l have "length ss \<le> length ts" "length ss \<le> length rs" "length ss \<le> length qs"
      by auto
    from texgen_section_lists [OF this, of P] show ?thesis by simp
  qed
  with p show ?thesis
    by (auto simp: str_texgen_def ebind_def)
qed

lemma str_texture_matrix_returns:
  assumes "case OP_TO_INFO_MAP g (NV097_SET_TEXTURE_MATRIX_ENABLE D) of
            Some (StateArray b s n) \<Rightarrow> True
          | Some (StructStateArray b s n ss sc) \<Rightarrow> True
          | _ \<Rightarrow> False"
  shows "\<exists>ls. str_texture_matrix D g st = Inr ls"
  using assms
  by (auto simp: str_texture_matrix_def get_raw_value_def ebind_def
      split: option.splits op_info.splits)

lemma report_returns:
  assumes wf: "well_formed_registry D g" and st: "uint32_state st"
  shows "\<exists>text. report P D g st = Inr text"
proof -
  from wf have k: "known_kind g (NV097_SET_LIGHTING_ENABLE D)"
      "known_kind g (NV097_SET_TWO_SIDE_LIGHT_EN D)" "known_kind g (NV097_SET_COLOR_MATERIAL D)"
      "known_kind g (NV097_SET_LIGHT_CONTROL D)" "known_kind g (NV097_SET_LIGHT_ENABLE_MASK D)"
      "known_kind g (NV097_SET_SPECULAR_ENABLE D)" "known_kind g (NV097_SET_FOG_ENABLE D)"
      "known_kind g (NV097_SET_FOG_GEN_MODE D)" "known_kind g (NV097_SET_SKIN_MODE D)"
      "known_kind g (NV097_SET_POINT_PARAMS_ENABLE D)" "known_kind g (NV097_SET_POINT_SIZE D)"
      "known_kind g (NV097_SET_POINT_SMOOTH_ENABLE D)"
    by (simp_all add: well_formed_registry_def)
  from wf obtain n where pp: "array_count g (NV097_SET_POINT_PARAMS D) = Some n" "n \<le> 0 \<or> 8 \<le> n"
    by (auto simp: well_formed_registry_def split: option.splits)
  then obtain b s where ppd: "OP_TO_INFO_MAP g (NV097_SET_POINT_PARAMS D) = Some (StateArray b s n)"
    unfolding array_count_Some by blast
  from wf have tm: "case OP_TO_INFO_MAP g (NV097_SET_TEXTURE_MATRIX_ENABLE D) of
            Some (StateArray b s n) \<Rightarrow> True
          | Some (StructStateArray b s n ss sc) \<Rightarrow> True
          | _ \<Rightarrow> False"
    by (simp add: well_formed_registry_def)
  from wf obtain m mt mr mq where tg: "array_count g (NV097_SET_TEXGEN_S D) = Some m"
      "array_count g (NV097_SET_TEXGEN_T D) = Some mt"
      "array_count g (NV097_SET_TEXGEN_R D) = Some mr"
      "array_count g (NV097_SET_TEXGEN_Q D) = Some mq"
      "(m \<le> mt \<and> m \<le> mr \<and> m \<le> mq) \<or> mt \<le> 0 \<or> mr \<le> 0 \<or> mq \<le> 0"
    by (auto simp: well_formed_registry_def split: option.splits)
  obtain l1 where l1: "str_lighting P D g st = Inr l1"
    using str_lighting_returns [OF k(1-5), of P st] by auto
  obtain l2 where l2: "str_specular D g st = Inr l2"
    using str_specular_returns [OF k(6), of st] by auto
  obtain l3 where l3: "str_fog P D g st = Inr l3"
    using str_fog_returns [OF k(7,8), of P st] by auto
  obtain l4 where l4: "str_skinning P D g st = Inr l4"
    using str_skinning_returns [OF k(9), of P st] by auto
  obtain l5 where l5: "str_point_params P D g st = Inr l5"
    using str_point_params_returns [OF k(10,11) ppd pp(2) st, of P] by auto
  obtain l6 where l6: "str_point_smooth D g st = Inr l6"
    using str_point_smooth_returns [OF k(12), of st] by auto
  obtain l7 where l7: "str_texgen P D g st = Inr l7"
    using str_texgen_returns [OF tg, of P st] by auto
  obtain l8 where l8: "str_texture_matrix D g st = Inr l8"
    using str_texture_matrix_returns [OF tm, of st] by auto
  show ?thesis
    by (simp add: report_def l1 l2 l3 l4 l5 l6 l7 l8 ebind_def)
qed

text \<open>
  Claim C7, as the code has it. On a registry whose descriptors have the shapes that the
  report reads (\<open>well_formed_registry\<close>), after any finite sequence of \<^verbatim>\<open>update\<close> calls with
  arbitrary opcodes and unsigned 32-bit parameters, the report completes and returns its
  text: no sequence of updates makes \<^verbatim>\<open>__str__\<close> raise. The formatters of the registry and
  Python's own renderings are total functions here.
\<close>

theorem report_never_raises:
  assumes "well_formed_registry D g" and "\<forall>(nv_op, nv_param)\<in>set ups. uint32 nv_param"
  shows "\<exists>text. report P D g (updates g Map.empty ups) = Inr text"
proof -
  have "uint32_state Map.empty" by (simp add: uint32_state_def)
  then have "uint32_state (updates g Map.empty ups)"
    using assms(2) by (rule uint32_state_updates)
  with assms(1) show ?thesis by (rule report_returns)
qed


text \<open>
  An instance: the sample registry is well formed, and the sample updates have unsigned
  32-bit parameters.
\<close>

theorem report_never_raises_witness:
  "well_formed_registry sample_data sample_globals
   \<and> list_all (\<lambda>(nv_op, nv_param). uint32 nv_param) sample_updates
   \<and> (\<exists>text. report sample_python sample_data sample_globals
         (updates sample_globals Map.empty sample_updates) = Inr text)"
proof -
  have wf: "well_formed_registry sample_data sample_globals"
    by code_simp
  have u: "list_all (\<lambda>(nv_op, nv_param). uint32 nv_param) sample_updates"
    by (simp add: uint32_def sample_updates_def)
  then have "\<forall>(nv_op, nv_param)\<in>set sample_updates. uint32 nv_param"
    unfolding list_all_iff .
  from report_never_raises [OF wf this, of sample_python] wf u show ?thesis
    by blast
qed

text \<open>
  Claim C7 as the specification states it asks of the registry only that it is not corrupt:
  that no descriptor is of an unknown kind. Three registries of known kinds only make the
  report raise: with two elements for the texture generation mode T the report without any
  update raises \<^verbatim>\<open>IndexError\<close>; with three point parameters, all written and switched on, it
  raises \<^verbatim>\<open>IndexError\<close>; with a scalar for the texture matrix switches, written once, it
  raises \<^verbatim>\<open>TypeError\<close>.
\<close>

theorem report_raises_counterexample:
  "list_all known_descriptor (kelvin_ops short_texgen_data)
   \<and> report sample_python short_texgen_data (loaded_globals short_texgen_data)
       (updates (loaded_globals short_texgen_data) Map.empty []) = Inl IndexError
   \<and> list_all known_descriptor (kelvin_ops short_params_data)
   \<and> report sample_python short_params_data (loaded_globals short_params_data)
       (updates (loaded_globals short_params_data) Map.empty
          [(0x318, 1), (0xA30, 0), (0xA34, 0), (0xA38, 0)]) = Inl IndexError
   \<and> list_all known_descriptor (kelvin_ops scalar_matrix_data)
   \<and> report sample_python scalar_matrix_data (loaded_globals scalar_matrix_data)
       (updates (loaded_globals scalar_matrix_data) Map.empty [(0x420, 1)]) = Inl TypeError"
  by code_simp

end
